theory Spec2Isabelle
  imports Main "HOL-Library.Word"
begin

text \<open>
  The dataset builder of the crypto finder: the cross compiler and its library manager,
  the function extractor and the automatic labeler, as functions over an explicit
  world (file system, requests made, commands run) and an explicit host that answers
  for the network, the toolchains and the external tools.
\<close>

section \<open>Python strings, paths and dictionaries\<close>

text \<open>
  A Python \<open>str\<close> is modelled as a \<open>string\<close> whose characters are the code points
  below 256; \<open>bytes\<close> are lists of 8-bit words.  The functions below follow the
  built-in methods the dataset builder calls.
\<close>

type_synonym byte = "8 word"

text \<open>\<open>s.split(c)\<close> with an explicit one-character separator: empty fields are kept.\<close>

fun split_acc :: "char \<Rightarrow> string \<Rightarrow> string \<Rightarrow> string list" where
  "split_acc c cur [] = [cur]"
| "split_acc c cur (x # xs) =
     (if x = c then cur # split_acc c [] xs else split_acc c (cur @ [x]) xs)"

definition split_on :: "char \<Rightarrow> string \<Rightarrow> string list" where
  "split_on c s = split_acc c [] s"

text \<open>\<open>s.startswith(p)\<close>, on strings and on bytes.\<close>

fun starts_with :: "'a list \<Rightarrow> 'a list \<Rightarrow> bool" where
  "starts_with [] s = True"
| "starts_with (p # ps) [] = False"
| "starts_with (p # ps) (x # xs) = (p = x \<and> starts_with ps xs)"

text \<open>\<open>k in s\<close> on strings: \<open>k\<close> occurs as a contiguous substring of \<open>s\<close>.\<close>

fun str_contains :: "string \<Rightarrow> string \<Rightarrow> bool" where
  "str_contains k [] = (k = [])"
| "str_contains k (x # xs) = (starts_with k (x # xs) \<or> str_contains k xs)"

text \<open>
  \<open>s.lower()\<close>: the upper-case letters below code point 256 are \<open>A\<close>..\<open>Z\<close> and
  \<open>0xC0\<close>..\<open>0xDE\<close> without \<open>0xD7\<close>; each is 32 below its lower-case letter, which
  is the same code with bit 5 set.
\<close>

fun lower_char :: "char \<Rightarrow> char" where
  "lower_char (Char b0 b1 b2 b3 b4 b5 b6 b7) =
     (let n = (of_char (Char b0 b1 b2 b3 b4 b5 b6 b7) :: nat)
      in if (65 \<le> n \<and> n \<le> 90) \<or> (192 \<le> n \<and> n \<le> 222 \<and> n \<noteq> 215)
         then Char b0 b1 b2 b3 b4 True b6 b7
         else Char b0 b1 b2 b3 b4 b5 b6 b7)"

definition lower :: "string \<Rightarrow> string" where
  "lower s = map lower_char s"

text \<open>\<open>s.rfind(c)\<close>: the highest index of \<open>c\<close> in \<open>s\<close>, or \<open>-1\<close>.\<close>

fun rfind :: "char \<Rightarrow> string \<Rightarrow> int" where
  "rfind c [] = - 1"
| "rfind c (x # xs) =
     (let r = rfind c xs
      in if 0 \<le> r then r + 1 else if x = c then 0 else - 1)"

text \<open>
  A \<open>pathlib\<close> POSIX path: whether it is absolute, and its components.  Parsing a
  string drops empty and \<open>.\<close> components, as \<open>Path(s)\<close> does.
\<close>

type_synonym path = "bool \<times> string list"

definition parse_path :: "string \<Rightarrow> path" where
  "parse_path s =
     (starts_with ''/'' s, filter (\<lambda>c. c \<noteq> [] \<and> c \<noteq> ''.'') (split_on (CHR ''/'') s))"

text \<open>\<open>p / q\<close>: an absolute right operand replaces the left one.\<close>

definition path_join :: "path \<Rightarrow> path \<Rightarrow> path" where
  "path_join p q = (if fst q then q else (fst p, snd p @ snd q))"

fun join_with :: "string \<Rightarrow> string list \<Rightarrow> string" where
  "join_with sep [] = []"
| "join_with sep [c] = c"
| "join_with sep (c # d # cs) = c @ sep @ join_with sep (d # cs)"

text \<open>\<open>str(p)\<close>.\<close>

definition path_str :: "path \<Rightarrow> string" where
  "path_str p =
     (if fst p then ''/'' @ join_with ''/'' (snd p)
      else if snd p = [] then ''.'' else join_with ''/'' (snd p))"

text \<open>\<open>p.name\<close>: the final component, empty for a path without components.\<close>

definition path_name :: "path \<Rightarrow> string" where
  "path_name p = (if snd p = [] then [] else last (snd p))"

text \<open>\<open>p.parent\<close>.\<close>

definition path_parent :: "path \<Rightarrow> path" where
  "path_parent p = (fst p, butlast (snd p))"

text \<open>
  \<open>p.stem\<close> and \<open>p.suffix\<close>: the name is cut at its last dot when that dot is neither
  the first nor the last character of the name.
\<close>

definition path_stem :: "path \<Rightarrow> string" where
  "path_stem p =
     (let name = path_name p; i = rfind (CHR ''.'') name
      in if 0 < i \<and> i < int (length name) - 1 then take (nat i) name else name)"

definition path_suffix :: "path \<Rightarrow> string" where
  "path_suffix p =
     (let name = path_name p; i = rfind (CHR ''.'') name
      in if 0 < i \<and> i < int (length name) - 1 then drop (nat i) name else [])"

text \<open>\<open>s.lstrip('.')\<close> and \<open>s.endswith('.')\<close>, as \<open>p.suffixes\<close> uses them.\<close>

definition lstrip_dots :: "string \<Rightarrow> string" where
  "lstrip_dots s = dropWhile (\<lambda>c. c = CHR ''.'') s"

definition ends_with_dot :: "string \<Rightarrow> bool" where
  "ends_with_dot s = (s \<noteq> [] \<and> last s = CHR ''.'')"

definition path_suffixes :: "path \<Rightarrow> string list" where
  "path_suffixes p =
     (let name = path_name p
      in if ends_with_dot name then []
         else map (\<lambda>x. ''.'' @ x) (tl (split_on (CHR ''.'') (lstrip_dots name))))"

text \<open>
  The values stored in the dictionaries of the pipeline.  A \<open>dict\<close> is an association
  list in insertion order; storing under an existing key replaces the value in place.
\<close>

datatype pyval = PInt int | PStr string | PBool bool | PDict "(string \<times> pyval) list"

type_synonym pydict = "(string \<times> pyval) list"

fun dict_set :: "'k \<Rightarrow> 'v \<Rightarrow> ('k \<times> 'v) list \<Rightarrow> ('k \<times> 'v) list" where
  "dict_set k v [] = [(k, v)]"
| "dict_set k v ((k', v') # d) =
     (if k' = k then (k, v) # d else (k', v') # dict_set k v d)"

definition dict_get :: "('k \<times> 'v) list \<Rightarrow> 'k \<Rightarrow> 'v option" where
  "dict_get d k = map_of d k"

section \<open>AutoLabeler\<close>

text \<open>\<open>AutoLabeler.ALGORITHM_MAP\<close>, in its declared order.\<close>

definition ALGORITHM_MAP :: "(string \<times> string) list" where
  "ALGORITHM_MAP =
     [(''aes'', ''AES''), (''des'', ''DES''), (''3des'', ''3DES''),
      (''chacha'', ''ChaCha20''), (''blowfish'', ''Blowfish''), (''twofish'', ''Twofish''),
      (''rsa'', ''RSA''), (''dsa'', ''DSA''), (''dh'', ''DH''), (''ecdh'', ''ECDH''),
      (''ecdsa'', ''ECDSA''), (''ecc'', ''ECC''),
      (''sha1'', ''SHA-1''), (''sha224'', ''SHA-224''), (''sha256'', ''SHA-256''),
      (''sha384'', ''SHA-384''), (''sha512'', ''SHA-512''), (''sha3'', ''SHA-3''),
      (''md5'', ''MD5''), (''blake'', ''BLAKE''),
      (''hmac'', ''HMAC''), (''cmac'', ''CMAC''), (''gmac'', ''GMAC''),
      (''pbkdf2'', ''PBKDF2''), (''hkdf'', ''HKDF''), (''scrypt'', ''Scrypt'')]"

text \<open>The loop of \<open>_detect_algorithm\<close> over \<open>ALGORITHM_MAP.items()\<close>.\<close>

fun detect_in :: "(string \<times> string) list \<Rightarrow> string \<Rightarrow> string" where
  "detect_in [] func_lower = ''Unknown''"
| "detect_in ((key, val) # items) func_lower =
     (if str_contains key func_lower then val else detect_in items func_lower)"

definition detect_algorithm :: "string \<Rightarrow> string" where
  "detect_algorithm function_name = detect_in ALGORITHM_MAP (lower function_name)"

text \<open>
  \<open>AutoLabeler.label_function\<close>: the label is read from the stem of the binary's file
  name, split at underscores, and stored under the key \<open>label\<close>.
\<close>

definition label_function :: "string \<Rightarrow> pydict \<Rightarrow> pydict" where
  "label_function binary_path function_info =
     (let binary_name = path_stem (parse_path binary_path);
          parts = split_on (CHR ''_'') binary_name
      in if 4 \<le> length parts then
           (let library = parts ! 0;
                func_name = parts ! 1;
                architecture = parts ! 2;
                optimization = parts ! 3;
                algorithm = detect_algorithm func_name
            in dict_set ''label''
                 (PDict [(''algorithm'', PStr algorithm),
                         (''library'', PStr library),
                         (''architecture'', PStr architecture),
                         (''optimization'', PStr optimization),
                         (''function_name'', PStr func_name),
                         (''is_crypto'', PBool True)])
                 function_info)
         else
           dict_set ''label''
             (PDict [(''algorithm'', PStr ''Unknown''), (''is_crypto'', PBool False)])
             function_info)"

text \<open>\<open>AutoLabeler.label_batch\<close>: every function is copied and labelled.\<close>

definition label_batch :: "pydict list \<Rightarrow> string \<Rightarrow> pydict list" where
  "label_batch functions binary_path =
     map (\<lambda>func. label_function binary_path func) functions"

text \<open>The fields of a label, read back from a labelled function.\<close>

definition label_of :: "pydict \<Rightarrow> pydict option" where
  "label_of function_info =
     (case dict_get function_info ''label'' of Some (PDict l) \<Rightarrow> Some l | _ \<Rightarrow> None)"

definition label_field :: "pydict \<Rightarrow> string \<Rightarrow> pyval option" where
  "label_field function_info k =
     (case label_of function_info of Some l \<Rightarrow> dict_get l k | None \<Rightarrow> None)"

section \<open>FunctionExtractor\<close>

text \<open>
  What the extractor sees of the host: whether \<open>readelf\<close> is on the path, what running
  \<open>readelf -s\<close> on a binary gives, the bytes of a file (\<open>None\<close> when reading raises),
  and the built-in \<open>int(text, base)\<close> (\<open>None\<close> for \<open>ValueError\<close>).
\<close>

datatype proc_result = Completed int string | Raised

record extractor_env =
  readelf_available :: bool
  run_readelf :: "string \<Rightarrow> proc_result"
  read_bytes :: "string \<Rightarrow> byte list option"
  py_int :: "string \<Rightarrow> nat \<Rightarrow> int option"

text \<open>What the extractor does to the host, in order.\<close>

datatype extractor_event = RanReadelf string | ReadFile string

text \<open>\<open>c.isspace()\<close> for the code points below 256, and \<open>line.split()\<close>.\<close>

definition is_space :: "char \<Rightarrow> bool" where
  "is_space c =
     (let n = (of_char c :: nat)
      in (9 \<le> n \<and> n \<le> 13) \<or> (28 \<le> n \<and> n \<le> 32) \<or> n = 133 \<or> n = 160)"

fun split_ws_acc :: "string \<Rightarrow> string \<Rightarrow> string list" where
  "split_ws_acc cur [] = (if cur = [] then [] else [cur])"
| "split_ws_acc cur (x # xs) =
     (if is_space x
      then (if cur = [] then split_ws_acc [] xs else cur # split_ws_acc [] xs)
      else split_ws_acc (cur @ [x]) xs)"

definition split_ws :: "string \<Rightarrow> string list" where
  "split_ws s = split_ws_acc [] s"

text \<open>The dictionary the extractor builds for one function.\<close>

definition function_entry :: "int \<Rightarrow> int \<Rightarrow> string \<Rightarrow> string \<Rightarrow> pydict" where
  "function_entry address sz name source =
     [(''address'', PInt address), (''size'', PInt sz),
      (''name'', PStr name), (''source'', PStr source)]"

text \<open>
  One line of the \<open>readelf\<close> output, as the body of the loop of
  \<open>_extract_from_symbols\<close> treats it: a line is skipped when either number does not
  parse.
\<close>

definition parse_symbol_line :: "extractor_env \<Rightarrow> string \<Rightarrow> pydict list" where
  "parse_symbol_line env line =
     (if str_contains ''FUNC'' line then
        (let parts = split_ws line
         in if 8 \<le> length parts then
              (case py_int env (parts ! 1) 16 of
                 None \<Rightarrow> []
               | Some address \<Rightarrow>
                   (case py_int env (parts ! 2) 10 of
                      None \<Rightarrow> []
                    | Some sz \<Rightarrow> [function_entry address sz (parts ! 7) ''symbol'']))
            else [])
      else [])"

definition extract_from_symbols ::
  "extractor_env \<Rightarrow> string \<Rightarrow> pydict list \<times> extractor_event list" where
  "extract_from_symbols env binary_path =
     (if \<not> readelf_available env then ([], [])
      else
        (case run_readelf env binary_path of
           Raised \<Rightarrow> ([], [RanReadelf binary_path])
         | Completed returncode stdout \<Rightarrow>
             (if returncode \<noteq> 0 then ([], [RanReadelf binary_path])
              else (concat (map (parse_symbol_line env) (split_on (CHR 0x0A) stdout)),
                    [RanReadelf binary_path]))))"

text \<open>\<open>data.find(pat, start)\<close> on bytes: the lowest index from \<open>start\<close> on, or \<open>-1\<close>.\<close>

fun find_first :: "byte list \<Rightarrow> byte list \<Rightarrow> nat option" where
  "find_first pat [] = (if pat = [] then Some 0 else None)"
| "find_first pat (x # xs) =
     (if starts_with pat (x # xs) then Some 0
      else (case find_first pat xs of None \<Rightarrow> None | Some i \<Rightarrow> Some (Suc i)))"

definition bytes_find :: "byte list \<Rightarrow> byte list \<Rightarrow> nat \<Rightarrow> int" where
  "bytes_find data pat start =
     (if length data < start then - 1
      else (case find_first pat (drop start data) of
              None \<Rightarrow> - 1
            | Some i \<Rightarrow> int (start + i)))"

text \<open>\<open>f'{n:x}'\<close> for a non-negative \<open>n\<close>.\<close>

definition hex_digit :: "nat \<Rightarrow> char" where
  "hex_digit d = ''0123456789abcdef'' ! d"

fun hex_str :: "nat \<Rightarrow> string" where
  "hex_str n = (if n < 16 then [hex_digit n] else hex_str (n div 16) @ [hex_digit (n mod 16)])"

definition prologue_pattern :: "byte list" where
  "prologue_pattern = [0x55, 0x89, 0xe5]"

lemma bytes_find_bounds:
  "bytes_find data pat start \<noteq> - 1 \<Longrightarrow>
   int start \<le> bytes_find data pat start \<and> start \<le> length data"
  by (auto simp: bytes_find_def split: if_splits option.splits)

text \<open>The \<open>while True\<close> loop of \<open>_extract_heuristic\<close>.\<close>

function heuristic_loop :: "byte list \<Rightarrow> nat \<Rightarrow> pydict list \<Rightarrow> pydict list" where
  "heuristic_loop data offset functions =
     (let found = bytes_find data prologue_pattern offset
      in if found = - 1 then functions
         else heuristic_loop data (nat found + 1)
                (functions @
                   [function_entry found 0 (''sub_'' @ hex_str (nat found)) ''heuristic'']))"
  by pat_completeness auto
termination
proof (relation "measure (\<lambda>(data, offset, functions). Suc (length data) - offset)")
  show "wf (measure (\<lambda>(data, offset, functions). Suc (length data) - offset))"
    by simp
next
  fix data :: "byte list" and offset :: nat and acc :: "pydict list" and found :: int
  assume "found = bytes_find data prologue_pattern offset" and "found \<noteq> - 1"
  then have "int offset \<le> found" and "offset \<le> length data"
    using bytes_find_bounds [of data prologue_pattern offset] by simp_all
  then show "((data, nat found + 1,
               acc @ [function_entry found 0 (''sub_'' @ hex_str (nat found)) ''heuristic'']),
              data, offset, acc)
             \<in> measure (\<lambda>(data, offset, functions). Suc (length data) - offset)"
    by simp
qed

definition extract_heuristic ::
  "extractor_env \<Rightarrow> string \<Rightarrow> pydict list \<times> extractor_event list" where
  "extract_heuristic env binary_path =
     (case read_bytes env binary_path of
        None \<Rightarrow> ([], [ReadFile binary_path])
      | Some data \<Rightarrow> (heuristic_loop data 0 [], [ReadFile binary_path]))"

text \<open>\<open>FunctionExtractor.extract_all\<close>.\<close>

definition extract_all :: "extractor_env \<Rightarrow> string \<Rightarrow> pydict list \<times> extractor_event list" where
  "extract_all env binary_path =
     (let (symbol_functions, ev1) = extract_from_symbols env binary_path;
          functions = (if symbol_functions \<noteq> [] then symbol_functions else [])
      in if symbol_functions = []
         then (let (heuristic_functions, ev2) = extract_heuristic env binary_path
               in (functions @ heuristic_functions, ev1 @ ev2))
         else (functions, ev1))"

text \<open>
  A reader of plain digit strings, standing for \<open>int\<close> in the examples: it accepts
  a non-empty run of digits of the base and nothing else.
\<close>

definition digit_val :: "char \<Rightarrow> nat option" where
  "digit_val c =
     (let n = (of_char c :: nat)
      in if 48 \<le> n \<and> n \<le> 57 then Some (n - 48)
         else if 97 \<le> n \<and> n \<le> 102 then Some (n - 87)
         else if 65 \<le> n \<and> n \<le> 70 then Some (n - 55)
         else None)"

fun digits_acc :: "nat \<Rightarrow> nat \<Rightarrow> string \<Rightarrow> nat option" where
  "digits_acc base acc [] = Some acc"
| "digits_acc base acc (c # cs) =
     (case digit_val c of
        None \<Rightarrow> None
      | Some d \<Rightarrow> (if d < base then digits_acc base (acc * base + d) cs else None))"

definition plain_int :: "string \<Rightarrow> nat \<Rightarrow> int option" where
  "plain_int s base = (if s = [] then None else map_option int (digits_acc base 0 s))"

declare hex_str.simps [simp del]

declare heuristic_loop.simps [simp del]

text \<open>
  Two hosts for the examples.  On \<open>stripped_host\<close> there is no \<open>readelf\<close> and every
  file holds one prologue followed by a \<open>nop\<close>; on \<open>symbol_host\<close> the same bytes are
  read, and \<open>readelf -s\<close> prints one \<open>FUNC\<close> row.
\<close>

definition stripped_host :: extractor_env where
  "stripped_host =
     \<lparr>readelf_available = False,
      run_readelf = (\<lambda>p. Raised),
      read_bytes = (\<lambda>p. Some [0x55, 0x89, 0xe5, 0x90]),
      py_int = plain_int\<rparr>"

definition symbol_host :: extractor_env where
  "symbol_host =
     \<lparr>readelf_available = True,
      run_readelf = (\<lambda>p. Completed 0
        (''    12: 0000000000401000    64 FUNC    GLOBAL DEFAULT   14 AES_encrypt'' @ [CHR 0x0A])),
      read_bytes = (\<lambda>p. Some [0x55, 0x89, 0xe5, 0x90]),
      py_int = plain_int\<rparr>"

section \<open>The host: file system, network and processes\<close>

text \<open>
  The exceptions the pipeline can raise.  \<open>ValueError\<close> and \<open>CompilationError\<close> carry
  the message the code builds; the others come from the libraries it calls.
\<close>

datatype error =
    ValueError string
  | KeyError string
  | CompilationError string
  | RequestError
  | IsADirectoryError
  | FileNotFoundError
  | FileExistsError
  | ReadError

text \<open>
  What a file holds, as far as the pipeline can tell: an archive of one of the two
  supported formats, with the entries it creates when unpacked (path below the
  target directory, and whether the entry is a directory) and whether it can be read
  to the end, or anything else.
\<close>

datatype archive_format = TarGz | Zip

datatype file_content =
    Opaque
  | Archive archive_format "(string list \<times> bool) list" bool

text \<open>
  The world the pipeline changes: the directories and files that exist (paths are
  taken component by component, without resolving \<open>..\<close> or links; compiled binaries
  are not tracked), the URLs requested so far, the compiler commands run so far, and
  the metadata document once it has been written.
\<close>

record world =
  dirs :: "path set"
  files :: "path \<rightharpoonup> file_content"
  fetched :: "string list"
  spawned :: "string list list"
  saved_metadata :: "(string \<times> (string \<times> pydict) list) list option"

text \<open>The outcome of \<open>subprocess.run\<close> on a compiler command.\<close>

datatype run_outcome = Returned int | TimeoutExpired | OtherException

text \<open>
  What the host answers: \<open>shutil.which\<close>, \<open>requests.get\<close> with \<open>raise_for_status\<close>
  (\<open>None\<close> when it raises), \<open>subprocess.run\<close> on a compiler command,
  \<open>Path(dir).rglob(pattern)\<close> in traversal order, the size and the MD5 digest of a
  file.
\<close>

record host =
  which :: "string \<Rightarrow> bool"
  http_get :: "string \<Rightarrow> file_content option"
  run_compiler :: "string list \<Rightarrow> run_outcome"
  rglob :: "string \<Rightarrow> string \<Rightarrow> string list"
  stat_size :: "string \<Rightarrow> nat"
  md5_hex :: "string \<Rightarrow> string"

definition path_exists :: "world \<Rightarrow> path \<Rightarrow> bool" where
  "path_exists w p = (snd p = [] \<or> p \<in> dirs w \<or> p \<in> dom (files w))"

definition is_dir :: "world \<Rightarrow> path \<Rightarrow> bool" where
  "is_dir w p = (snd p = [] \<or> p \<in> dirs w)"

text \<open>The path itself and every directory above it, top first.\<close>

fun nonempty_prefixes :: "'a list \<Rightarrow> 'a list list" where
  "nonempty_prefixes [] = []"
| "nonempty_prefixes (x # xs) = [x] # map (\<lambda>ys. x # ys) (nonempty_prefixes xs)"

definition ancestors :: "path \<Rightarrow> path list" where
  "ancestors p = map (\<lambda>cs. (fst p, cs)) (nonempty_prefixes (snd p))"

text \<open>\<open>p.mkdir(parents=True, exist_ok=True)\<close>: fails when a file is in the way.\<close>

definition mkdir_parents :: "path \<Rightarrow> world \<Rightarrow> (error + unit) \<times> world" where
  "mkdir_parents p w =
     (if list_ex (\<lambda>a. a \<in> dom (files w)) (ancestors p) then (Inl FileExistsError, w)
      else (Inr (), w\<lparr>dirs := dirs w \<union> set (ancestors p)\<rparr>))"

text \<open>\<open>p.unlink()\<close>.\<close>

definition unlink :: "path \<Rightarrow> world \<Rightarrow> (error + unit) \<times> world" where
  "unlink p w =
     (if p \<in> dom (files w) then (Inr (), w\<lparr>files := (files w)(p := None)\<rparr>)
      else (Inl FileNotFoundError, w))"

section \<open>LibraryManager\<close>

text \<open>The truth value of an \<open>Optional[str]\<close>: \<open>None\<close> and the empty string are false.\<close>

definition truthy :: "string option \<Rightarrow> bool" where
  "truthy v = (case v of None \<Rightarrow> False | Some s \<Rightarrow> s \<noteq> [])"

text \<open>\<open>LibraryManager.__init__\<close> creates the source directory.\<close>

definition library_manager_init :: "path \<Rightarrow> world \<Rightarrow> (error + unit) \<times> world" where
  "library_manager_init sources_dir w = mkdir_parents sources_dir w"

text \<open>The cache path of \<open>get_library\<close>, derived from name and version.\<close>

definition lib_dir_of :: "path \<Rightarrow> string \<Rightarrow> string option \<Rightarrow> path" where
  "lib_dir_of sources_dir name version =
     (if truthy version
      then path_join sources_dir (parse_path (name @ ''-'' @ the version))
      else path_join sources_dir (parse_path name))"

text \<open>
  \<open>LibraryManager._download_file\<close>: the request is made first, then the file named
  after the last segment of the URL is written in the source directory.
\<close>

definition download_file :: "host \<Rightarrow> path \<Rightarrow> string \<Rightarrow> world \<Rightarrow> (error + path) \<times> world" where
  "download_file h sources_dir url w =
     (let filename = last (split_on (CHR ''/'') url);
          output_path = path_join sources_dir (parse_path filename);
          w1 = w\<lparr>fetched := fetched w @ [url]\<rparr>
      in case http_get h url of
           None \<Rightarrow> (Inl RequestError, w1)
         | Some content \<Rightarrow>
             (if is_dir w1 output_path then (Inl IsADirectoryError, w1)
              else if \<not> is_dir w1 (path_parent output_path) then (Inl FileNotFoundError, w1)
              else (Inr output_path, w1\<lparr>files := (files w1)(output_path \<mapsto> content)\<rparr>)))"

text \<open>Unpacking creates every entry below the target, with the directories above it.\<close>

fun unpack :: "path \<Rightarrow> (string list \<times> bool) list \<Rightarrow> world \<Rightarrow> world" where
  "unpack extract_to [] w = w"
| "unpack extract_to ((rel, isdir) # entries) w =
     (let target = (fst extract_to, snd extract_to @ rel);
          w1 = w\<lparr>dirs := dirs w \<union> set (ancestors (path_parent target))\<rparr>
      in unpack extract_to entries
           (if isdir then w1\<lparr>dirs := insert target (dirs w1)\<rparr>
            else w1\<lparr>files := (files w1)(target \<mapsto> Opaque)\<rparr>))"

text \<open>
  \<open>tarfile.open(...).extractall\<close> and \<open>zipfile.ZipFile(...).extractall\<close>: a file of
  another kind cannot be opened; an archive that breaks off leaves what was unpacked
  before the error.
\<close>

definition open_and_extract ::
  "archive_format \<Rightarrow> path \<Rightarrow> path \<Rightarrow> world \<Rightarrow> (error + unit) \<times> world" where
  "open_and_extract fmt archive_path extract_to w =
     (case files w archive_path of
        None \<Rightarrow> (Inl FileNotFoundError, w)
      | Some Opaque \<Rightarrow> (Inl ReadError, w)
      | Some (Archive f entries intact) \<Rightarrow>
          (if f \<noteq> fmt then (Inl ReadError, w)
           else if intact then (Inr (), unpack extract_to entries w)
           else (Inl ReadError, unpack extract_to entries w)))"

text \<open>\<open>LibraryManager._extract_archive\<close>.\<close>

definition extract_archive :: "path \<Rightarrow> path \<Rightarrow> world \<Rightarrow> (error + unit) \<times> world" where
  "extract_archive archive_path extract_to w =
     (case mkdir_parents extract_to w of
        (Inl e, w1) \<Rightarrow> (Inl e, w1)
      | (Inr u, w1) \<Rightarrow>
          (if path_suffix archive_path = ''.gz''
              \<or> path_suffixes archive_path = [''.tar'', ''.gz'']
           then open_and_extract TarGz archive_path extract_to w1
           else if path_suffix archive_path = ''.zip''
           then open_and_extract Zip archive_path extract_to w1
           else (Inl (ValueError (''Unsupported archive format: '' @ path_suffix archive_path)),
                 w1)))"

text \<open>\<open>LibraryManager.get_library\<close>.\<close>

definition get_library ::
  "host \<Rightarrow> path \<Rightarrow> string \<Rightarrow> string option \<Rightarrow> string option \<Rightarrow> world
   \<Rightarrow> (error + string) \<times> world" where
  "get_library h sources_dir name version url w =
     (let lib_dir = lib_dir_of sources_dir name version
      in if path_exists w lib_dir then (Inr (path_str lib_dir), w)
         else if truthy url then
           (case download_file h sources_dir (the url) w of
              (Inl e, w1) \<Rightarrow> (Inl e, w1)
            | (Inr archive_path, w1) \<Rightarrow>
                (case extract_archive archive_path (path_parent lib_dir) w1 of
                   (Inl e, w2) \<Rightarrow> (Inl e, w2)
                 | (Inr u, w2) \<Rightarrow>
                     (case unlink archive_path w2 of
                        (Inl e, w3) \<Rightarrow> (Inl e, w3)
                      | (Inr u', w3) \<Rightarrow> (Inr (path_str lib_dir), w3))))
         else (Inl (ValueError (''Library '' @ name @ '' not found and no URL provided'')), w))"

section \<open>CrossCompiler\<close>

record arch_config =
  cc :: string
  cflags :: string
  triplet :: string
  description :: string

text \<open>\<open>CrossCompiler.ARCHITECTURES\<close>, \<open>OPTIMIZATION_LEVELS\<close> and \<open>COMPILERS\<close>.\<close>

definition ARCHITECTURES :: "(string \<times> arch_config) list" where
  "ARCHITECTURES =
     [(''x86'', \<lparr>cc = ''gcc'', cflags = ''-m32'', triplet = ''i686-linux-gnu'',
                 description = ''Intel x86 32-bit''\<rparr>),
      (''x86-64'', \<lparr>cc = ''gcc'', cflags = ''-m64'', triplet = ''x86_64-linux-gnu'',
                    description = ''Intel x86 64-bit''\<rparr>),
      (''arm'', \<lparr>cc = ''arm-linux-gnueabi-gcc'', cflags = '''', triplet = ''arm-linux-gnueabi'',
                 description = ''ARM 32-bit''\<rparr>),
      (''aarch64'', \<lparr>cc = ''aarch64-linux-gnu-gcc'', cflags = '''',
                     triplet = ''aarch64-linux-gnu'', description = ''ARM 64-bit (AArch64)''\<rparr>),
      (''mips'', \<lparr>cc = ''mips-linux-gnu-gcc'', cflags = '''', triplet = ''mips-linux-gnu'',
                  description = ''MIPS 32-bit''\<rparr>),
      (''riscv'', \<lparr>cc = ''riscv64-linux-gnu-gcc'', cflags = '''',
                   triplet = ''riscv64-linux-gnu'', description = ''RISC-V 64-bit''\<rparr>)]"

definition OPTIMIZATION_LEVELS :: "string list" where
  "OPTIMIZATION_LEVELS = [''-O0'', ''-O1'', ''-O2'', ''-O3'', ''-Os'']"

definition COMPILERS :: "string list" where
  "COMPILERS = [''gcc'', ''clang'']"

text \<open>
  \<open>CrossCompiler._check_toolchains\<close>: the architectures whose compiler is on the path,
  in the order of the catalog; none at all is an error.
\<close>

definition check_toolchains :: "host \<Rightarrow> error + string list" where
  "check_toolchains h =
     (let available = map fst (filter (\<lambda>(arch, config). which h (cc config)) ARCHITECTURES)
      in if available = []
         then Inl (CompilationError ''No cross-compilers found! Install toolchains first.'')
         else Inr available)"

text \<open>
  The command \<open>compile_file\<close> builds: the compiler, then the flags without the empty
  ones.
\<close>

definition compiler_command ::
  "arch_config \<Rightarrow> string \<Rightarrow> string \<Rightarrow> string \<Rightarrow> string \<Rightarrow> string
   \<Rightarrow> string list option \<Rightarrow> string list" where
  "compiler_command arch_config source_file output_file architecture optimization
     compiler extra_flags =
     (let (cc0, target_flag) =
            (if compiler = ''clang'' \<and> architecture \<in> set [''x86'', ''x86-64'']
             then (''clang'',
                   if architecture = ''x86'' then ''--target=i686-linux-gnu''
                   else ''--target=x86_64-linux-gnu'')
             else (cc arch_config, []));
          flags = [optimization, cflags arch_config, target_flag, ''-static'',
                   ''-fno-stack-protector'', ''-o'', output_file, source_file];
          flags = (case extra_flags of
                     None \<Rightarrow> flags
                   | Some extra \<Rightarrow> if extra \<noteq> [] then flags @ extra else flags);
          flags = filter (\<lambda>f. f \<noteq> []) flags
      in cc0 # flags)"

text \<open>
  \<open>CrossCompiler.compile_file\<close>.  \<open>available_archs\<close> is the field set by the
  constructor; the command is recorded in the world when \<open>subprocess.run\<close> is
  called.
\<close>

definition compile_file ::
  "host \<Rightarrow> string list \<Rightarrow> string \<Rightarrow> string \<Rightarrow> string \<Rightarrow> string \<Rightarrow> string
   \<Rightarrow> string list option \<Rightarrow> world \<Rightarrow> (error + bool) \<times> world" where
  "compile_file h available_archs source_file output_file architecture optimization
     compiler extra_flags w =
     (if architecture \<notin> set available_archs then (Inr False, w)
      else
        (case map_of ARCHITECTURES architecture of
           None \<Rightarrow> (Inl (KeyError architecture), w)
         | Some arch_config \<Rightarrow>
             (let cmd = compiler_command arch_config source_file output_file architecture
                          optimization compiler extra_flags;
                  w1 = w\<lparr>spawned := spawned w @ [cmd]\<rparr>
              in case run_compiler h cmd of
                   Returned returncode \<Rightarrow> (Inr (returncode = 0), w1)
                 | TimeoutExpired \<Rightarrow> (Inr False, w1)
                 | OtherException \<Rightarrow> (Inr False, w1))))"

text \<open>\<open>CrossCompiler._find_source_file\<close>: the first match of the first pattern that matches.\<close>

fun first_match :: "host \<Rightarrow> string \<Rightarrow> string list \<Rightarrow> string option" where
  "first_match h source_dir [] = None"
| "first_match h source_dir (pattern # patterns) =
     (case rglob h source_dir pattern of
        [] \<Rightarrow> first_match h source_dir patterns
      | m # ms \<Rightarrow> Some m)"

definition find_source_file :: "host \<Rightarrow> string \<Rightarrow> string \<Rightarrow> string option" where
  "find_source_file h source_dir function_name =
     first_match h source_dir
       [function_name @ ''.c'', function_name @ ''.cpp'',
        ''*'' @ function_name @ ''*.c'', ''*'' @ function_name @ ''*.cpp'']"

text \<open>\<open>opt.replace('-', '').lower()\<close> and the name of the output file.\<close>

definition opt_clean :: "string \<Rightarrow> string" where
  "opt_clean opt = lower (filter (\<lambda>c. c \<noteq> CHR ''-'') opt)"

definition output_filename :: "string \<Rightarrow> string \<Rightarrow> string \<Rightarrow> string \<Rightarrow> string" where
  "output_filename library_name func_name arch opt =
     library_name @ ''_'' @ func_name @ ''_'' @ arch @ ''_'' @ opt_clean opt @ ''.bin''"

type_synonym cell_key = "string \<times> string \<times> string"

text \<open>
  The output file of one cell of the matrix, and the metadata \<open>compile_library\<close>
  stores for its binary.
\<close>

definition output_file_of :: "path \<Rightarrow> string \<Rightarrow> string \<Rightarrow> string \<Rightarrow> string \<Rightarrow> path" where
  "output_file_of output_path library_name func_name arch opt =
     path_join output_path (parse_path (output_filename library_name func_name arch opt))"

definition unit_metadata ::
  "host \<Rightarrow> string \<Rightarrow> path \<Rightarrow> string \<Rightarrow> string \<Rightarrow> string \<Rightarrow> string \<Rightarrow> pydict" where
  "unit_metadata h library_name output_file source_file arch opt func_name =
     [(''binary_path'', PStr (path_str output_file)),
      (''source_path'', PStr source_file),
      (''architecture'', PStr arch),
      (''optimization'', PStr opt),
      (''function'', PStr func_name),
      (''library'', PStr library_name),
      (''size'', PInt (int (stat_size h (path_str output_file)))),
      (''md5'', PStr (md5_hex h (path_str output_file)))]"

text \<open>
  The body of the innermost loop of \<open>compile_library\<close> for one cell of the matrix.  A
  cell without a source file is skipped; a successful compilation stores the metadata
  of the binary under the key \<open>(arch, opt, func_name)\<close>.
\<close>

definition compile_cell ::
  "host \<Rightarrow> string list \<Rightarrow> string \<Rightarrow> string \<Rightarrow> path \<Rightarrow> cell_key
   \<Rightarrow> (cell_key \<times> pydict) list \<Rightarrow> world
   \<Rightarrow> (error + (cell_key \<times> pydict) list) \<times> world" where
  "compile_cell h available_archs library_name source_dir output_path key results w =
     (case key of (arch, opt, func_name) \<Rightarrow>
        (case find_source_file h source_dir func_name of
           None \<Rightarrow> (Inr results, w)
         | Some source_file \<Rightarrow>
             (let output_file = output_file_of output_path library_name func_name arch opt
              in case compile_file h available_archs source_file (path_str output_file)
                        arch opt ''gcc'' None w of
                   (Inl e, w1) \<Rightarrow> (Inl e, w1)
                 | (Inr success, w1) \<Rightarrow>
                     (if success then
                        (Inr (dict_set (arch, opt, func_name)
                                (unit_metadata h library_name output_file source_file
                                   arch opt func_name)
                                results),
                         w1)
                      else (Inr results, w1)))))"

fun compile_cells ::
  "host \<Rightarrow> string list \<Rightarrow> string \<Rightarrow> string \<Rightarrow> path \<Rightarrow> cell_key list
   \<Rightarrow> (cell_key \<times> pydict) list \<Rightarrow> world
   \<Rightarrow> (error + (cell_key \<times> pydict) list) \<times> world" where
  "compile_cells h available_archs library_name source_dir output_path [] results w =
     (Inr results, w)"
| "compile_cells h available_archs library_name source_dir output_path (key # keys) results w =
     (case compile_cell h available_archs library_name source_dir output_path key results w of
        (Inl e, w1) \<Rightarrow> (Inl e, w1)
      | (Inr results1, w1) \<Rightarrow>
          compile_cells h available_archs library_name source_dir output_path keys results1 w1)"

text \<open>The cells in the order of the three nested loops.\<close>

definition matrix_cells :: "string list \<Rightarrow> string list \<Rightarrow> cell_key list" where
  "matrix_cells available_archs functions =
     concat (map (\<lambda>arch.
       concat (map (\<lambda>opt. map (\<lambda>func_name. (arch, opt, func_name)) functions)
                   OPTIMIZATION_LEVELS))
       available_archs)"

text \<open>\<open>CrossCompiler.compile_library\<close>.\<close>

definition compile_library ::
  "host \<Rightarrow> string list \<Rightarrow> string \<Rightarrow> string \<Rightarrow> string list \<Rightarrow> string \<Rightarrow> world
   \<Rightarrow> (error + (cell_key \<times> pydict) list) \<times> world" where
  "compile_library h available_archs library_name source_dir functions output_dir w =
     compile_cells h available_archs library_name source_dir (parse_path output_dir)
       (matrix_cells available_archs functions) [] w"

section \<open>DatasetCompiler\<close>

text \<open>The catalog of \<open>DatasetCompiler._get_crypto_functions\<close>.\<close>

definition function_map :: "(string \<times> string list) list" where
  "function_map =
     [(''openssl'',
       [''AES_encrypt'', ''AES_decrypt'', ''AES_set_encrypt_key'',
        ''RSA_public_encrypt'', ''RSA_private_decrypt'',
        ''SHA256_Init'', ''SHA256_Update'', ''SHA256_Final'',
        ''SHA1_Init'', ''SHA1_Update'', ''SHA1_Final'',
        ''MD5_Init'', ''MD5_Update'', ''MD5_Final'',
        ''DES_encrypt1'', ''DES_decrypt1'',
        ''HMAC'', ''HMAC_Init'', ''HMAC_Update'', ''HMAC_Final'']),
      (''mbedtls'',
       [''mbedtls_aes_encrypt'', ''mbedtls_aes_decrypt'',
        ''mbedtls_rsa_public'', ''mbedtls_rsa_private'',
        ''mbedtls_sha256'', ''mbedtls_sha1'', ''mbedtls_md5'',
        ''mbedtls_des_crypt_ecb'', ''mbedtls_des3_crypt_ecb'']),
      (''libsodium'',
       [''crypto_secretbox_easy'', ''crypto_secretbox_open_easy'',
        ''crypto_box_easy'', ''crypto_box_open_easy'',
        ''crypto_sign'', ''crypto_sign_open'',
        ''crypto_hash_sha256'', ''crypto_hash_sha512''])]"

definition get_crypto_functions :: "string \<Rightarrow> string list" where
  "get_crypto_functions library =
     (case map_of function_map library of None \<Rightarrow> [] | Some fs \<Rightarrow> fs)"

text \<open>
  \<open>DatasetCompiler._save_metadata\<close>: the keys of every library become the strings
  \<open>arch_opt_func\<close>, and the document is written.
\<close>

fun serializable_keys :: "(cell_key \<times> pydict) list \<Rightarrow> (string \<times> pydict) list
    \<Rightarrow> (string \<times> pydict) list" where
  "serializable_keys [] acc = acc"
| "serializable_keys (((k0, k1, k2), v) # kvs) acc =
     serializable_keys kvs (dict_set (k0 @ ''_'' @ k1 @ ''_'' @ k2) v acc)"

fun serializable_libs ::
  "(string \<times> (cell_key \<times> pydict) list) list \<Rightarrow> (string \<times> (string \<times> pydict) list) list
   \<Rightarrow> (string \<times> (string \<times> pydict) list) list" where
  "serializable_libs [] acc = acc"
| "serializable_libs ((lib_name, lib_results) # rest) acc =
     serializable_libs rest (dict_set lib_name (serializable_keys lib_results []) acc)"

definition save_metadata :: "(string \<times> (cell_key \<times> pydict) list) list \<Rightarrow> world \<Rightarrow> world" where
  "save_metadata results w = w\<lparr>saved_metadata := Some (serializable_libs results [])\<rparr>"

text \<open>
  \<open>DatasetCompiler.__init__\<close>: the toolchains are probed and the source directory
  \<open>output_dir/sources\<close> is created.
\<close>

definition dataset_compiler_init ::
  "host \<Rightarrow> path \<Rightarrow> world \<Rightarrow> (error + string list) \<times> world" where
  "dataset_compiler_init h output_dir w =
     (case check_toolchains h of
        Inl e \<Rightarrow> (Inl e, w)
      | Inr available_archs \<Rightarrow>
          (case library_manager_init (path_join output_dir (parse_path ''sources'')) w of
             (Inl e, w1) \<Rightarrow> (Inl e, w1)
           | (Inr u, w1) \<Rightarrow> (Inr available_archs, w1)))"

text \<open>
  The body of the loop of \<open>DatasetCompiler.compile_all\<close> for one configured library.
  A library configuration is a dictionary of strings with the keys \<open>name\<close>,
  \<open>version\<close> and \<open>url\<close>.  Nothing in the loop catches an exception.
\<close>

type_synonym library_results = "(string \<times> (cell_key \<times> pydict) list) list"

definition process_library ::
  "host \<Rightarrow> string list \<Rightarrow> path \<Rightarrow> (string \<times> string) list \<Rightarrow> library_results \<Rightarrow> world
   \<Rightarrow> (error + library_results) \<times> world" where
  "process_library h available_archs output_dir lib_config all_results w =
     (case dict_get lib_config ''name'' of
        None \<Rightarrow> (Inl (KeyError ''name''), w)
      | Some lib_name \<Rightarrow>
          (case get_library h (path_join output_dir (parse_path ''sources'')) lib_name
                  (dict_get lib_config ''version'') (dict_get lib_config ''url'') w of
             (Inl e, w1) \<Rightarrow> (Inl e, w1)
           | (Inr source_dir, w1) \<Rightarrow>
               (case compile_library h available_archs lib_name source_dir
                       (get_crypto_functions lib_name)
                       (path_str (path_join (path_join output_dir (parse_path ''binaries''))
                                    (parse_path lib_name)))
                       w1 of
                  (Inl e, w2) \<Rightarrow> (Inl e, w2)
                | (Inr results, w2) \<Rightarrow> (Inr (dict_set lib_name results all_results), w2))))"

fun compile_libraries ::
  "host \<Rightarrow> string list \<Rightarrow> path \<Rightarrow> (string \<times> string) list list \<Rightarrow> library_results \<Rightarrow> world
   \<Rightarrow> (error + library_results) \<times> world" where
  "compile_libraries h available_archs output_dir [] all_results w = (Inr all_results, w)"
| "compile_libraries h available_archs output_dir (lib_config # libraries) all_results w =
     (case process_library h available_archs output_dir lib_config all_results w of
        (Inl e, w1) \<Rightarrow> (Inl e, w1)
      | (Inr all_results1, w1) \<Rightarrow>
          compile_libraries h available_archs output_dir libraries all_results1 w1)"

text \<open>\<open>DatasetCompiler.compile_all\<close>: the metadata is saved after the loop.\<close>

definition compile_all ::
  "host \<Rightarrow> string list \<Rightarrow> path \<Rightarrow> (string \<times> string) list list \<Rightarrow> world
   \<Rightarrow> (error + unit) \<times> world" where
  "compile_all h available_archs output_dir libraries w =
     (case compile_libraries h available_archs output_dir libraries [] w of
        (Inl e, w1) \<Rightarrow> (Inl e, w1)
      | (Inr all_results, w1) \<Rightarrow> (Inr (), save_metadata all_results w1))"

section \<open>A host for the examples\<close>

text \<open>
  On \<open>gcc_host\<close> only \<open>gcc\<close> is installed, every compilation succeeds, a function
  \<open>f\<close> has the source file \<open>f.c\<close>, and two URLs answer: a complete archive that unpacks
  to the directory \<open>mbedtls-3.5.0\<close>, and an archive that breaks off.
\<close>

definition good_url :: string where
  "good_url = ''https://example.org/dl/mbedtls-3.5.0.tar.gz''"

definition broken_url :: string where
  "broken_url = ''https://example.org/dl/broken.tar.gz''"

definition gcc_host :: host where
  "gcc_host =
     \<lparr>which = (\<lambda>c. c = ''gcc''),
      http_get = (\<lambda>url.
        if url = good_url
        then Some (Archive TarGz
                     [([''mbedtls-3.5.0''], True),
                      ([''mbedtls-3.5.0'', ''library''], True),
                      ([''mbedtls-3.5.0'', ''library'', ''aes.c''], False)] True)
        else if url = broken_url then Some (Archive TarGz [] False)
        else None),
      run_compiler = (\<lambda>cmd. Returned 0),
      rglob = (\<lambda>d pattern. if CHR ''*'' \<in> set pattern then [] else [d @ ''/'' @ pattern]),
      stat_size = (\<lambda>p. 4096),
      md5_hex = (\<lambda>p. ''d41d8cd98f00b204e9800998ecf8427e'')\<rparr>"

definition empty_world :: world where
  "empty_world =
     \<lparr>dirs = {}, files = Map.empty, fetched = [], spawned = [], saved_metadata = None\<rparr>"

text \<open>The world after \<open>DatasetCompiler('dataset')\<close> has been constructed.\<close>

definition ready_world :: world where
  "ready_world = snd (dataset_compiler_init gcc_host (parse_path ''dataset'') empty_world)"

definition sources :: path where
  "sources = path_join (parse_path ''dataset'') (parse_path ''sources'')"

definition wolfssl_config :: "(string \<times> string) list" where
  "wolfssl_config = [(''name'', ''wolfssl'')]"

definition mbedtls_config :: "(string \<times> string) list" where
  "mbedtls_config = [(''name'', ''mbedtls''), (''version'', ''3.5.0''), (''url'', good_url)]"

section \<open>The invariant of the build loop, and two example builds\<close>

text \<open>
  The invariant of the loops of \<open>compile_library\<close>: every stored unit sits under the
  key of a cell of the matrix and is the metadata of that cell's output file.
\<close>

definition units_well_formed ::
  "host \<Rightarrow> string \<Rightarrow> path \<Rightarrow> cell_key set \<Rightarrow> (cell_key \<times> pydict) list \<Rightarrow> bool" where
  "units_well_formed h library_name output_path cells results =
     (\<forall>(key, unit) \<in> set results.
        key \<in> cells \<and>
        (case key of (arch, opt, func_name) \<Rightarrow>
           \<exists>source_file.
             unit = unit_metadata h library_name
                      (output_file_of output_path library_name func_name arch opt)
                      source_file arch opt func_name))"

text \<open>
  Two builds on \<open>gcc_host\<close> for the examples: \<open>HMAC\<close> and \<open>AES_encrypt\<close> of
  \<open>openssl\<close>, for the two architectures of the host, with one of the units each build
  stores.
\<close>

definition hmac_build :: "(error + (cell_key \<times> pydict) list) \<times> world" where
  "hmac_build =
     compile_library gcc_host [''x86'', ''x86-64''] ''openssl'' ''dataset/sources/openssl''
       [''HMAC''] ''dataset/binaries/openssl'' ready_world"

definition hmac_unit :: pydict where
  "hmac_unit =
     unit_metadata gcc_host ''openssl''
       (False, [''dataset'', ''binaries'', ''openssl'', ''openssl_HMAC_x86-64_o2.bin''])
       ''dataset/sources/openssl/HMAC.c'' ''x86-64'' ''-O2'' ''HMAC''"

definition aes_build :: "(error + (cell_key \<times> pydict) list) \<times> world" where
  "aes_build =
     compile_library gcc_host [''x86'', ''x86-64''] ''openssl'' ''dataset/sources/openssl''
       [''AES_encrypt''] ''dataset/binaries/openssl'' ready_world"

definition aes_unit :: pydict where
  "aes_unit =
     unit_metadata gcc_host ''openssl''
       (False, [''dataset'', ''binaries'', ''openssl'', ''openssl_AES_encrypt_x86-64_o0.bin''])
       ''dataset/sources/openssl/AES_encrypt.c'' ''x86-64'' ''-O0'' ''AES_encrypt''"

section \<open>Properties of the string and dictionary functions\<close>

lemma starts_with_iff: "starts_with p s \<longleftrightarrow> (\<exists>q. s = p @ q)"
  by (induction p s rule: starts_with.induct) auto

lemma str_contains_iff: "str_contains k s \<longleftrightarrow> (\<exists>p q. s = p @ k @ q)"
proof (induction s)
  case Nil
  show ?case by auto
next
  case (Cons x xs)
  have "(\<exists>p q. x # xs = p @ k @ q) \<longleftrightarrow>
        (\<exists>q. x # xs = k @ q) \<or> (\<exists>p q. xs = p @ k @ q)"
  proof
    assume "\<exists>p q. x # xs = p @ k @ q"
    then obtain p q where pq: "x # xs = p @ k @ q" by blast
    show "(\<exists>q. x # xs = k @ q) \<or> (\<exists>p q. xs = p @ k @ q)"
    proof (cases p)
      case Nil
      with pq show ?thesis by auto
    next
      case (Cons y ys)
      with pq have "xs = ys @ k @ q" by simp
      then show ?thesis by blast
    qed
  next
    assume "(\<exists>q. x # xs = k @ q) \<or> (\<exists>p q. xs = p @ k @ q)"
    then show "\<exists>p q. x # xs = p @ k @ q"
    proof
      assume "\<exists>q. x # xs = k @ q"
      then obtain q where "x # xs = [] @ k @ q" by auto
      then show ?thesis by blast
    next
      assume "\<exists>p q. xs = p @ k @ q"
      then obtain p q where "x # xs = (x # p) @ k @ q" by auto
      then show ?thesis by blast
    qed
  qed
  with Cons show ?case by (simp add: starts_with_iff)
qed

lemma map_of_dict_set: "map_of (dict_set k v d) k = Some v"
  by (induction d) auto

lemma detect_in_first:
  "\<forall>(k', v') \<in> set pre. \<not> str_contains k' s \<Longrightarrow> str_contains k s \<Longrightarrow>
   detect_in (pre @ (k, v) # post) s = v"
  by (induction pre) auto

lemma detect_in_none:
  "\<forall>(k', v') \<in> set items. \<not> str_contains k' s \<Longrightarrow> detect_in items s = ''Unknown''"
  by (induction items) auto

section \<open>Properties of the labeler\<close>

text \<open>
  C5.  Algorithm detection lower-cases the function name and returns the value of the
  first key, in the declared order of the catalog, that is a substring of it, and
  \<open>Unknown\<close> when no key is; for \<open>hmac_sha256_init\<close> the result is \<open>SHA-256\<close>, the
  entry of \<open>sha256\<close>, although the key \<open>hmac\<close> occurs in the name as well.
\<close>

theorem detect_algorithm_first_match:
  "(ALGORITHM_MAP = pre @ (k, v) # post \<longrightarrow>
      (\<exists>p q. lower function_name = p @ k @ q) \<longrightarrow>
      (\<forall>(k', v') \<in> set pre. \<not> (\<exists>p q. lower function_name = p @ k' @ q)) \<longrightarrow>
      detect_algorithm function_name = v)
   \<and> ((\<forall>(k', v') \<in> set ALGORITHM_MAP. \<not> (\<exists>p q. lower function_name = p @ k' @ q)) \<longrightarrow>
      detect_algorithm function_name = ''Unknown'')
   \<and> detect_algorithm ''hmac_sha256_init'' = ''SHA-256''
   \<and> (\<exists>p q. lower ''hmac_sha256_init'' = p @ ''hmac'' @ q)"
proof (intro conjI impI)
  assume e: "ALGORITHM_MAP = pre @ (k, v) # post"
    and "\<exists>p q. lower function_name = p @ k @ q"
    and "\<forall>(k', v') \<in> set pre. \<not> (\<exists>p q. lower function_name = p @ k' @ q)"
  then have a: "str_contains k (lower function_name)"
    and b: "\<forall>(k', v') \<in> set pre. \<not> str_contains k' (lower function_name)"
    by (simp_all add: str_contains_iff)
  show "detect_algorithm function_name = v"
    unfolding detect_algorithm_def e by (rule detect_in_first [OF b a])
next
  assume "\<forall>(k', v') \<in> set ALGORITHM_MAP. \<not> (\<exists>p q. lower function_name = p @ k' @ q)"
  then have "\<forall>(k', v') \<in> set ALGORITHM_MAP. \<not> str_contains k' (lower function_name)"
    by (simp add: str_contains_iff)
  then show "detect_algorithm function_name = ''Unknown''"
    unfolding detect_algorithm_def by (rule detect_in_none)
next
  show "detect_algorithm ''hmac_sha256_init'' = ''SHA-256''"
    by (simp add: detect_algorithm_def ALGORITHM_MAP_def lower_def)
next
  have "str_contains ''hmac'' (lower ''hmac_sha256_init'')"
    by (simp add: lower_def)
  then show "\<exists>p q. lower ''hmac_sha256_init'' = p @ ''hmac'' @ q"
    by (simp only: str_contains_iff)
qed

theorem detect_algorithm_first_match_witness:
  "ALGORITHM_MAP = take 14 ALGORITHM_MAP @ (''sha256'', ''SHA-256'') # drop 15 ALGORITHM_MAP
   \<and> (\<exists>p q. lower ''SHA256_Init'' = p @ ''sha256'' @ q)
   \<and> detect_algorithm ''SHA256_Init'' = ''SHA-256''"
proof -
  have e: "ALGORITHM_MAP = take 14 ALGORITHM_MAP @ (''sha256'', ''SHA-256'') # drop 15 ALGORITHM_MAP"
    by (simp add: ALGORITHM_MAP_def)
  have "str_contains ''sha256'' (lower ''SHA256_Init'')"
    by (simp add: lower_def)
  then have a: "\<exists>p q. lower ''SHA256_Init'' = p @ ''sha256'' @ q"
    by (simp only: str_contains_iff)
  have "\<forall>(k', v') \<in> set (take 14 ALGORITHM_MAP). \<not> str_contains k' (lower ''SHA256_Init'')"
    by (simp add: lower_def ALGORITHM_MAP_def)
  then have b: "\<forall>(k', v') \<in> set (take 14 ALGORITHM_MAP).
             \<not> (\<exists>p q. lower ''SHA256_Init'' = p @ k' @ q)"
    by (simp only: str_contains_iff)
  from detect_algorithm_first_match
    [of "take 14 ALGORITHM_MAP" "''sha256''" "''SHA-256''" "drop 15 ALGORITHM_MAP" "''SHA256_Init''"]
  have "detect_algorithm ''SHA256_Init'' = ''SHA-256''"
    using e a b by blast
  with e a show ?thesis by blast
qed

text \<open>
  C6.  When the stem of the binary's file name splits into fewer than four
  underscore-delimited fields, the label is exactly \<open>algorithm: Unknown, is_crypto: False\<close>;
  with four or more fields \<open>is_crypto\<close> is \<open>True\<close>, whatever the algorithm lookup
  returns.
\<close>

theorem label_function_field_count:
  "(length (split_on (CHR ''_'') (path_stem (parse_path binary_path))) < 4 \<longrightarrow>
      label_of (label_function binary_path function_info) =
        Some [(''algorithm'', PStr ''Unknown''), (''is_crypto'', PBool False)])
   \<and> (4 \<le> length (split_on (CHR ''_'') (path_stem (parse_path binary_path))) \<longrightarrow>
      label_field (label_function binary_path function_info) ''is_crypto'' = Some (PBool True))"
  by (simp add: label_function_def label_of_def label_field_def Let_def dict_get_def
      map_of_dict_set)

theorem label_function_field_count_witness:
  "length (split_on (CHR ''_'') (path_stem (parse_path ''binaries/openssl_x86_o2.bin''))) < 4
   \<and> label_of (label_function ''binaries/openssl_x86_o2.bin'' [(''name'', PStr ''main'')]) =
        Some [(''algorithm'', PStr ''Unknown''), (''is_crypto'', PBool False)]
   \<and> 4 \<le> length (split_on (CHR ''_'') (path_stem (parse_path ''binaries/zlib_crc32_x86_o2.bin'')))
   \<and> label_field (label_function ''binaries/zlib_crc32_x86_o2.bin'' [(''name'', PStr ''main'')])
        ''is_crypto'' = Some (PBool True)"
proof -
  have h3: "length (split_on (CHR ''_'') (path_stem (parse_path ''binaries/openssl_x86_o2.bin''))) < 4"
    by (simp add: parse_path_def path_stem_def path_name_def split_on_def)
  have h4: "4 \<le> length (split_on (CHR ''_'') (path_stem (parse_path ''binaries/zlib_crc32_x86_o2.bin'')))"
    by (simp add: parse_path_def path_stem_def path_name_def split_on_def)
  from label_function_field_count [of "''binaries/openssl_x86_o2.bin''" "[(''name'', PStr ''main'')]"] h3
  have c3: "label_of (label_function ''binaries/openssl_x86_o2.bin'' [(''name'', PStr ''main'')]) =
        Some [(''algorithm'', PStr ''Unknown''), (''is_crypto'', PBool False)]"
    by blast
  from label_function_field_count [of "''binaries/zlib_crc32_x86_o2.bin''" "[(''name'', PStr ''main'')]"] h4
  have c4: "label_field (label_function ''binaries/zlib_crc32_x86_o2.bin'' [(''name'', PStr ''main'')])
        ''is_crypto'' = Some (PBool True)"
    by blast
  from h3 c3 h4 c4 show ?thesis by blast
qed


text \<open>
  C10.  The value stored under \<open>label\<close> depends on the binary path alone: two
  function dictionaries labelled against the same path get equal labels, and every
  function labelled by \<open>label_batch\<close> gets the label of that path.
\<close>

theorem label_depends_only_on_binary_path:
  "dict_get (label_function binary_path info1) ''label'' =
     dict_get (label_function binary_path info2) ''label''
   \<and> (\<forall>g \<in> set (label_batch functions binary_path).
        dict_get g ''label'' = dict_get (label_function binary_path []) ''label'')"
  by (auto simp: label_function_def label_batch_def Let_def dict_get_def map_of_dict_set)

theorem label_depends_only_on_binary_path_witness:
  "label_function ''openssl_aes_arm_o1.bin'' [(''address'', PInt 8192), (''name'', PStr ''main'')]
     \<in> set (label_batch [[(''address'', PInt 4096), (''name'', PStr ''AES_encrypt'')],
                            [(''address'', PInt 8192), (''name'', PStr ''main'')]]
                           ''openssl_aes_arm_o1.bin'')
   \<and> dict_get (label_function ''openssl_aes_arm_o1.bin''
                 [(''address'', PInt 8192), (''name'', PStr ''main'')]) ''label'' =
     dict_get (label_function ''openssl_aes_arm_o1.bin'' []) ''label''"
proof -
  have m: "label_function ''openssl_aes_arm_o1.bin'' [(''address'', PInt 8192), (''name'', PStr ''main'')]
      \<in> set (label_batch [[(''address'', PInt 4096), (''name'', PStr ''AES_encrypt'')],
                [(''address'', PInt 8192), (''name'', PStr ''main'')]]
               ''openssl_aes_arm_o1.bin'')"
    by (simp add: label_batch_def)
  from label_depends_only_on_binary_path
    [of "''openssl_aes_arm_o1.bin''" "[]" "[]"
        "[[(''address'', PInt 4096), (''name'', PStr ''AES_encrypt'')],
          [(''address'', PInt 8192), (''name'', PStr ''main'')]]"] m
  have "dict_get (label_function ''openssl_aes_arm_o1.bin''
                 [(''address'', PInt 8192), (''name'', PStr ''main'')]) ''label'' =
     dict_get (label_function ''openssl_aes_arm_o1.bin'' []) ''label''"
    by blast
  with m show ?thesis by blast
qed

section \<open>Properties of the function extractor\<close>

lemma heuristic_loop_entries:
  "\<forall>f \<in> set acc. \<exists>a n. f = function_entry a 0 n ''heuristic'' \<Longrightarrow>
   \<forall>f \<in> set (heuristic_loop data offset acc). \<exists>a n. f = function_entry a 0 n ''heuristic''"
proof (induction data offset acc rule: heuristic_loop.induct)
  case (1 data offset acc)
  show ?case
  proof (cases "bytes_find data prologue_pattern offset = - 1")
    case True
    with "1.prems" show ?thesis by (simp add: heuristic_loop.simps [of data offset] Let_def)
  next
    case False
    let ?found = "bytes_find data prologue_pattern offset"
    let ?acc = "acc @ [function_entry ?found 0 (''sub_'' @ hex_str (nat ?found)) ''heuristic'']"
    have "\<forall>f \<in> set ?acc. \<exists>a n. f = function_entry a 0 n ''heuristic''"
      using "1.prems" by auto
    from "1.IH" [OF refl False this] False show ?thesis
      by (simp add: heuristic_loop.simps [of data offset] Let_def)
  qed
qed

lemma extract_heuristic_entries:
  assumes "f \<in> set (fst (extract_heuristic env binary_path))"
  shows "\<exists>a n. f = function_entry a 0 n ''heuristic''"
proof (cases "read_bytes env binary_path")
  case None
  with assms show ?thesis by (simp add: extract_heuristic_def)
next
  case (Some data)
  with assms have "f \<in> set (heuristic_loop data 0 [])"
    by (simp add: extract_heuristic_def)
  moreover have "\<forall>f \<in> set (heuristic_loop data 0 []). \<exists>a n. f = function_entry a 0 n ''heuristic''"
    by (rule heuristic_loop_entries) simp
  ultimately show ?thesis by blast
qed

lemma parse_symbol_line_entries:
  assumes "f \<in> set (parse_symbol_line env line)"
  shows "\<exists>a s n. f = function_entry a s n ''symbol''"
proof (cases "py_int env (split_ws line ! 1) 16")
  case None
  with assms show ?thesis
    unfolding parse_symbol_line_def Let_def
    by (cases "str_contains ''FUNC'' line"; cases "8 \<le> length (split_ws line)") simp_all
next
  case (Some address)
  show ?thesis
  proof (cases "py_int env (split_ws line ! 2) 10")
    case None
    with Some assms show ?thesis
      unfolding parse_symbol_line_def Let_def
      by (cases "str_contains ''FUNC'' line"; cases "8 \<le> length (split_ws line)") simp_all
  next
    case (Some sz)
    with \<open>py_int env (split_ws line ! 1) 16 = Some address\<close> assms
    have "f = function_entry address sz (split_ws line ! 7) ''symbol''"
      unfolding parse_symbol_line_def Let_def
      by (cases "str_contains ''FUNC'' line"; cases "8 \<le> length (split_ws line)") simp_all
    then show ?thesis by blast
  qed
qed

lemma extract_from_symbols_entries:
  "f \<in> set (fst (extract_from_symbols env binary_path)) \<Longrightarrow>
   \<exists>a s n. f = function_entry a s n ''symbol''"
  by (auto simp: extract_from_symbols_def split: if_splits proc_result.splits
      dest: parse_symbol_line_entries)

lemma extract_from_symbols_events:
  "fst (extract_from_symbols env binary_path) \<noteq> [] \<Longrightarrow>
   snd (extract_from_symbols env binary_path) = [RanReadelf binary_path]"
  by (auto simp: extract_from_symbols_def split: if_splits proc_result.splits)

lemma extract_all_cases:
  "extract_all env binary_path =
     (if fst (extract_from_symbols env binary_path) = []
      then (fst (extract_heuristic env binary_path),
            snd (extract_from_symbols env binary_path) @ snd (extract_heuristic env binary_path))
      else extract_from_symbols env binary_path)"
  by (simp add: extract_all_def Let_def split_beta)

text \<open>
  C3 (as the code has it).  Every function of the result whose provenance is
  \<open>heuristic\<close> carries the integer \<open>0\<close> as its size: the undetermined size is the
  number zero, not a marker of its own.
\<close>

theorem heuristic_size_is_zero:
  "\<forall>f \<in> set (fst (extract_all env binary_path)).
     dict_get f ''source'' = Some (PStr ''heuristic'') \<longrightarrow> dict_get f ''size'' = Some (PInt 0)"
proof
  fix f
  assume f: "f \<in> set (fst (extract_all env binary_path))"
  show "dict_get f ''source'' = Some (PStr ''heuristic'') \<longrightarrow> dict_get f ''size'' = Some (PInt 0)"
  proof (cases "fst (extract_from_symbols env binary_path) = []")
    case True
    with f have "f \<in> set (fst (extract_heuristic env binary_path))"
      by (simp add: extract_all_cases)
    then obtain a n where "f = function_entry a 0 n ''heuristic''"
      using extract_heuristic_entries by blast
    then show ?thesis by (simp add: function_entry_def dict_get_def)
  next
    case False
    with f have "f \<in> set (fst (extract_from_symbols env binary_path))"
      by (simp add: extract_all_cases)
    then obtain a s n where "f = function_entry a s n ''symbol''"
      using extract_from_symbols_entries by blast
    then show ?thesis by (simp add: function_entry_def dict_get_def)
  qed
qed

lemma stripped_host_extract_all:
  "fst (extract_all stripped_host ''fw.bin'') =
     [[(''address'', PInt 0), (''size'', PInt 0), (''name'', PStr ''sub_0''),
       (''source'', PStr ''heuristic'')]]"
  by (simp add: extract_all_cases extract_from_symbols_def extract_heuristic_def
      stripped_host_def heuristic_loop.simps bytes_find_def prologue_pattern_def
      function_entry_def hex_str.simps hex_digit_def)

theorem heuristic_size_is_zero_witness:
  "hd (fst (extract_all stripped_host ''fw.bin'')) \<in> set (fst (extract_all stripped_host ''fw.bin''))
   \<and> dict_get (hd (fst (extract_all stripped_host ''fw.bin''))) ''source'' =
         Some (PStr ''heuristic'')
   \<and> dict_get (hd (fst (extract_all stripped_host ''fw.bin''))) ''size'' = Some (PInt 0)"
proof -
  have m: "hd (fst (extract_all stripped_host ''fw.bin''))
             \<in> set (fst (extract_all stripped_host ''fw.bin''))"
    by (simp add: stripped_host_extract_all)
  have h: "dict_get (hd (fst (extract_all stripped_host ''fw.bin''))) ''source'' =
             Some (PStr ''heuristic'')"
    by (simp add: stripped_host_extract_all dict_get_def)
  from heuristic_size_is_zero [of stripped_host "''fw.bin''"] m h
  have "dict_get (hd (fst (extract_all stripped_host ''fw.bin''))) ''size'' = Some (PInt 0)"
    by blast
  with m h show ?thesis by blast
qed

theorem heuristic_size_counterexample:
  "dict_get (fst (extract_all stripped_host ''fw.bin'') ! 0) ''source'' = Some (PStr ''heuristic'')
   \<and> dict_get (fst (extract_all stripped_host ''fw.bin'') ! 0) ''size'' = Some (PInt 0)
   \<and> length (fst (extract_all stripped_host ''fw.bin'')) = 1"
  by (simp add: stripped_host_extract_all dict_get_def)

text \<open>
  C4.  When the symbol table yields at least one function, \<open>extract_all\<close> returns
  exactly those functions, the only thing it does to the host is the run of \<open>readelf\<close>
  (the file is never read for the prologue scan), and every entry has provenance
  \<open>symbol\<close>.
\<close>

theorem symbol_precedence:
  "fst (extract_from_symbols env binary_path) \<noteq> [] \<Longrightarrow>
   fst (extract_all env binary_path) = fst (extract_from_symbols env binary_path)
   \<and> snd (extract_all env binary_path) = [RanReadelf binary_path]
   \<and> (\<forall>f \<in> set (fst (extract_all env binary_path)).
        dict_get f ''source'' = Some (PStr ''symbol''))"
proof -
  assume ne: "fst (extract_from_symbols env binary_path) \<noteq> []"
  then have eq: "extract_all env binary_path = extract_from_symbols env binary_path"
    by (simp add: extract_all_cases)
  have "\<forall>f \<in> set (fst (extract_from_symbols env binary_path)).
          dict_get f ''source'' = Some (PStr ''symbol'')"
  proof
    fix f assume "f \<in> set (fst (extract_from_symbols env binary_path))"
    then obtain a s n where "f = function_entry a s n ''symbol''"
      using extract_from_symbols_entries by blast
    then show "dict_get f ''source'' = Some (PStr ''symbol'')"
      by (simp add: function_entry_def dict_get_def)
  qed
  with eq extract_from_symbols_events [OF ne] show ?thesis by simp
qed

lemma symbol_host_symbols:
  "fst (extract_from_symbols symbol_host ''fw.bin'') =
     [[(''address'', PInt 4198400), (''size'', PInt 64), (''name'', PStr ''AES_encrypt''),
       (''source'', PStr ''symbol'')]]"
  by (simp add: extract_from_symbols_def symbol_host_def split_on_def
      parse_symbol_line_def split_ws_def is_space_def plain_int_def digit_val_def
      function_entry_def)

lemma symbol_host_prologue:
  "read_bytes symbol_host ''fw.bin'' = Some [0x55, 0x89, 0xe5, 0x90]
   \<and> bytes_find [0x55, 0x89, 0xe5, 0x90] prologue_pattern 0 = 0"
  by (simp add: symbol_host_def bytes_find_def prologue_pattern_def)

theorem symbol_precedence_witness:
  "fst (extract_from_symbols symbol_host ''fw.bin'') \<noteq> []
   \<and> bytes_find [0x55, 0x89, 0xe5, 0x90] prologue_pattern 0 = 0
   \<and> fst (extract_all symbol_host ''fw.bin'') = fst (extract_from_symbols symbol_host ''fw.bin'')
   \<and> snd (extract_all symbol_host ''fw.bin'') = [RanReadelf ''fw.bin'']"
proof -
  have ne: "fst (extract_from_symbols symbol_host ''fw.bin'') \<noteq> []"
    by (simp add: symbol_host_symbols)
  from symbol_precedence [OF ne] symbol_host_prologue ne show ?thesis by blast
qed

section \<open>Properties of the compiler and the library manager\<close>

lemma ready_world_eq:
  "ready_world =
     \<lparr>dirs = {(False, [''dataset'']), (False, [''dataset'', ''sources''])},
      files = Map.empty, fetched = [], spawned = [], saved_metadata = None\<rparr>"
  by (auto simp: ready_world_def dataset_compiler_init_def check_toolchains_def ARCHITECTURES_def
      gcc_host_def library_manager_init_def mkdir_parents_def parse_path_def split_on_def
      path_join_def ancestors_def empty_world_def)

lemma sources_eq: "sources = (False, [''dataset'', ''sources''])"
  by (simp add: sources_def parse_path_def split_on_def path_join_def)

lemmas library_manager_defs =
  get_library_def lib_dir_of_def truthy_def download_file_def extract_archive_def
  open_and_extract_def mkdir_parents_def unlink_def path_exists_def is_dir_def ancestors_def
  parse_path_def split_on_def path_join_def path_parent_def path_str_def path_name_def
  path_suffix_def path_suffixes_def lstrip_dots_def ends_with_dot_def Let_def

subsection \<open>compile_file\<close>

text \<open>
  C7.  For an architecture that is not among the available ones, \<open>compile_file\<close>
  returns \<open>False\<close> (it does not raise) and leaves the world as it was: no compiler
  command is run.
\<close>

theorem compile_file_unavailable_architecture:
  "architecture \<notin> set available_archs \<Longrightarrow>
   compile_file h available_archs source_file output_file architecture optimization
     compiler extra_flags w = (Inr False, w)
   \<and> spawned (snd (compile_file h available_archs source_file output_file architecture
                     optimization compiler extra_flags w)) = spawned w"
  by (simp add: compile_file_def)

lemma gcc_host_toolchains: "check_toolchains gcc_host = Inr [''x86'', ''x86-64'']"
  by (simp add: check_toolchains_def ARCHITECTURES_def gcc_host_def)

theorem compile_file_unavailable_architecture_witness:
  "check_toolchains gcc_host = Inr [''x86'', ''x86-64'']
   \<and> ''mips'' \<notin> set [''x86'', ''x86-64'']
   \<and> compile_file gcc_host [''x86'', ''x86-64''] ''aes.c'' ''aes.bin'' ''mips'' ''-O2'' ''gcc''
        None ready_world = (Inr False, ready_world)"
proof -
  have h: "''mips'' \<notin> set [''x86'', ''x86-64'']" by simp
  from compile_file_unavailable_architecture [OF h] gcc_host_toolchains h
  show ?thesis by blast
qed

subsection \<open>get_library\<close>

lemma download_file_creates:
  "download_file h sources_dir url w = (Inr archive_path, w1) \<Longrightarrow>
   archive_path \<in> dom (files w1)"
  by (auto simp: download_file_def Let_def split: option.splits if_splits)

lemma unpack_keeps_files:
  "p \<in> dom (files w) \<Longrightarrow> p \<in> dom (files (unpack extract_to entries w))"
proof (induction entries arbitrary: w)
  case Nil
  then show ?case by simp
next
  case (Cons entry entries)
  obtain rel isdir where e: "entry = (rel, isdir)" by (cases entry)
  show ?case
    unfolding e unpack.simps Let_def
    by (rule Cons.IH) (use Cons.prems in auto)
qed

lemma open_and_extract_keeps_files:
  "p \<in> dom (files w) \<Longrightarrow>
   p \<in> dom (files (snd (open_and_extract fmt archive_path extract_to w)))"
  by (auto simp: open_and_extract_def unpack_keeps_files
      split: option.splits file_content.splits)

lemma extract_archive_keeps_files:
  "p \<in> dom (files w) \<Longrightarrow> p \<in> dom (files (snd (extract_archive archive_path extract_to w)))"
  by (auto simp: extract_archive_def mkdir_parents_def open_and_extract_keeps_files)

lemma get_library_cached:
  "path_exists w (lib_dir_of sources_dir name version) \<Longrightarrow>
   get_library h sources_dir name version url w
     = (Inr (path_str (lib_dir_of sources_dir name version)), w)"
  by (simp add: get_library_def)

text \<open>
  C9.  On a cache miss with a URL, once the archive has been downloaded: when the
  extraction fails, \<open>get_library\<close> raises that very error and the archive file is still
  there; when the extraction succeeds, \<open>get_library\<close> returns the cache path and the
  archive file has been deleted.
\<close>

theorem archive_deleted_iff_extracted:
  assumes miss: "\<not> path_exists w (lib_dir_of sources_dir name version)"
    and url: "truthy url"
    and dl: "download_file h sources_dir (the url) w = (Inr archive_path, w1)"
  shows "(\<forall>e w2.
            extract_archive archive_path (path_parent (lib_dir_of sources_dir name version)) w1
              = (Inl e, w2) \<longrightarrow>
            get_library h sources_dir name version url w = (Inl e, w2)
            \<and> archive_path \<in> dom (files w2))
       \<and> (\<forall>w2.
            extract_archive archive_path (path_parent (lib_dir_of sources_dir name version)) w1
              = (Inr (), w2) \<longrightarrow>
            get_library h sources_dir name version url w
              = (Inr (path_str (lib_dir_of sources_dir name version)),
                 w2\<lparr>files := (files w2)(archive_path := None)\<rparr>)
            \<and> archive_path \<notin> dom (files (snd (get_library h sources_dir name version url w))))"
proof (intro conjI allI impI)
  fix e w2
  assume ex: "extract_archive archive_path (path_parent (lib_dir_of sources_dir name version)) w1
                = (Inl e, w2)"
  show "get_library h sources_dir name version url w = (Inl e, w2)"
    using miss url dl ex by (simp add: get_library_def)
  have "archive_path \<in> dom (files (snd (extract_archive archive_path
          (path_parent (lib_dir_of sources_dir name version)) w1)))"
    by (rule extract_archive_keeps_files) (rule download_file_creates [OF dl])
  with ex show "archive_path \<in> dom (files w2)" by simp
next
  fix w2
  assume ex: "extract_archive archive_path (path_parent (lib_dir_of sources_dir name version)) w1
                = (Inr (), w2)"
  have "archive_path \<in> dom (files (snd (extract_archive archive_path
          (path_parent (lib_dir_of sources_dir name version)) w1)))"
    by (rule extract_archive_keeps_files) (rule download_file_creates [OF dl])
  with ex have present: "archive_path \<in> dom (files w2)" by simp
  then show g: "get_library h sources_dir name version url w
              = (Inr (path_str (lib_dir_of sources_dir name version)),
                 w2\<lparr>files := (files w2)(archive_path := None)\<rparr>)"
    using miss url dl ex by (simp add: get_library_def unlink_def)
  show "archive_path \<notin> dom (files (snd (get_library h sources_dir name version url w)))"
    by (simp add: g)
qed

lemma broken_download:
  "download_file gcc_host sources broken_url ready_world =
     (Inr (False, [''dataset'', ''sources'', ''broken.tar.gz'']),
      ready_world\<lparr>fetched := [broken_url],
                   files := [(False, [''dataset'', ''sources'', ''broken.tar.gz''])
                               \<mapsto> Archive TarGz [] False]\<rparr>)"
  by (simp add: ready_world_eq sources_eq broken_url_def good_url_def gcc_host_def
      library_manager_defs)


lemma mbedtls_miss:
  "\<not> path_exists ready_world (lib_dir_of sources ''mbedtls'' (Some ''3.5.0''))"
  by (simp add: ready_world_eq sources_eq library_manager_defs)

lemma broken_extract:
  "fst (extract_archive (False, [''dataset'', ''sources'', ''broken.tar.gz''])
          (path_parent (lib_dir_of sources ''mbedtls'' (Some ''3.5.0'')))
          (snd (download_file gcc_host sources broken_url ready_world))) = Inl ReadError"
  by (simp add: broken_download)
    (simp add: ready_world_eq sources_eq library_manager_defs)

lemma good_download:
  "fst (download_file gcc_host sources good_url ready_world) =
     Inr (False, [''dataset'', ''sources'', ''mbedtls-3.5.0.tar.gz''])"
  by (simp add: ready_world_eq sources_eq good_url_def gcc_host_def library_manager_defs)

lemma good_extract:
  "fst (extract_archive (False, [''dataset'', ''sources'', ''mbedtls-3.5.0.tar.gz''])
          (path_parent (lib_dir_of sources ''mbedtls'' (Some ''3.5.0'')))
          (snd (download_file gcc_host sources good_url ready_world))) = Inr ()"
  by (simp add: ready_world_eq sources_eq good_url_def gcc_host_def library_manager_defs)

theorem archive_deleted_iff_extracted_witness:
  "\<not> path_exists ready_world (lib_dir_of sources ''mbedtls'' (Some ''3.5.0''))
   \<and> truthy (Some broken_url) \<and> truthy (Some good_url)
   \<and> fst (download_file gcc_host sources broken_url ready_world)
         = Inr (False, [''dataset'', ''sources'', ''broken.tar.gz''])
   \<and> fst (get_library gcc_host sources ''mbedtls'' (Some ''3.5.0'') (Some broken_url) ready_world)
         = Inl ReadError
   \<and> (False, [''dataset'', ''sources'', ''broken.tar.gz''])
         \<in> dom (files (snd (get_library gcc_host sources ''mbedtls'' (Some ''3.5.0'')
                                 (Some broken_url) ready_world)))
   \<and> fst (download_file gcc_host sources good_url ready_world)
         = Inr (False, [''dataset'', ''sources'', ''mbedtls-3.5.0.tar.gz''])
   \<and> fst (get_library gcc_host sources ''mbedtls'' (Some ''3.5.0'') (Some good_url) ready_world)
         = Inr (path_str (lib_dir_of sources ''mbedtls'' (Some ''3.5.0'')))
   \<and> (False, [''dataset'', ''sources'', ''mbedtls-3.5.0.tar.gz''])
         \<notin> dom (files (snd (get_library gcc_host sources ''mbedtls'' (Some ''3.5.0'')
                                 (Some good_url) ready_world)))"
proof -
  let ?lib = "lib_dir_of sources ''mbedtls'' (Some ''3.5.0'')"
  let ?bad = "(False, [''dataset'', ''sources'', ''broken.tar.gz''])"
  let ?good = "(False, [''dataset'', ''sources'', ''mbedtls-3.5.0.tar.gz''])"
  let ?wb = "snd (download_file gcc_host sources broken_url ready_world)"
  let ?wg = "snd (download_file gcc_host sources good_url ready_world)"
  have tb: "truthy (Some broken_url)" and tg: "truthy (Some good_url)"
    by (simp_all add: truthy_def broken_url_def good_url_def)
  have fb: "fst (download_file gcc_host sources broken_url ready_world) = Inr ?bad"
    by (simp add: broken_download)
  then have db: "download_file gcc_host sources (the (Some broken_url)) ready_world
                   = (Inr ?bad, ?wb)"
    by (simp add: prod_eq_iff)
  have dg: "download_file gcc_host sources (the (Some good_url)) ready_world = (Inr ?good, ?wg)"
    using good_download by (simp add: prod_eq_iff)
  have eb: "extract_archive ?bad (path_parent ?lib) ?wb
              = (Inl ReadError, snd (extract_archive ?bad (path_parent ?lib) ?wb))"
    using broken_extract by (simp add: prod_eq_iff)
  have eg: "extract_archive ?good (path_parent ?lib) ?wg
              = (Inr (), snd (extract_archive ?good (path_parent ?lib) ?wg))"
    using good_extract by (simp add: prod_eq_iff)
  from archive_deleted_iff_extracted [OF mbedtls_miss tb db] eb
  have b: "get_library gcc_host sources ''mbedtls'' (Some ''3.5.0'') (Some broken_url) ready_world
             = (Inl ReadError, snd (extract_archive ?bad (path_parent ?lib) ?wb))
           \<and> ?bad \<in> dom (files (snd (extract_archive ?bad (path_parent ?lib) ?wb)))"
    by blast
  from archive_deleted_iff_extracted [OF mbedtls_miss tg dg] eg
  have g: "get_library gcc_host sources ''mbedtls'' (Some ''3.5.0'') (Some good_url) ready_world
             = (Inr (path_str ?lib),
                (snd (extract_archive ?good (path_parent ?lib) ?wg))
                  \<lparr>files := (files (snd (extract_archive ?good (path_parent ?lib) ?wg)))
                               (?good := None)\<rparr>)
           \<and> ?good \<notin> dom (files (snd (get_library gcc_host sources ''mbedtls'' (Some ''3.5.0'')
                                          (Some good_url) ready_world)))"
    by blast
  from b have b1: "fst (get_library gcc_host sources ''mbedtls'' (Some ''3.5.0'') (Some broken_url)
                      ready_world) = Inl ReadError"
    and b2: "?bad \<in> dom (files (snd (get_library gcc_host sources ''mbedtls'' (Some ''3.5.0'')
                                 (Some broken_url) ready_world)))"
    by simp_all
  from g have g1: "fst (get_library gcc_host sources ''mbedtls'' (Some ''3.5.0'') (Some good_url)
                      ready_world) = Inr (path_str ?lib)"
    by simp
  from mbedtls_miss tb tg fb b1 b2 good_download g1 g show ?thesis by blast
qed

subsection \<open>The second call downloads again\<close>

text \<open>
  C8 (the code at a failing input).  The archive unpacks to \<open>mbedtls-3.5.0\<close> while the
  cache path of the unversioned request is \<open>sources/mbedtls\<close>: the first call returns a
  path that does not exist, and the second call with the same identity requests the URL
  again.
\<close>

theorem get_library_downloads_twice:
  "fst (get_library gcc_host sources ''mbedtls'' None (Some good_url) ready_world)
     = Inr ''dataset/sources/mbedtls''
   \<and> fst (get_library gcc_host sources ''mbedtls'' None (Some good_url)
           (snd (get_library gcc_host sources ''mbedtls'' None (Some good_url) ready_world)))
     = Inr ''dataset/sources/mbedtls''
   \<and> fetched (snd (get_library gcc_host sources ''mbedtls'' None (Some good_url)
           (snd (get_library gcc_host sources ''mbedtls'' None (Some good_url) ready_world))))
     = [good_url, good_url]
   \<and> \<not> path_exists
         (snd (get_library gcc_host sources ''mbedtls'' None (Some good_url) ready_world))
         (parse_path ''dataset/sources/mbedtls'')"
  by (simp add: ready_world_eq sources_eq good_url_def gcc_host_def library_manager_defs)

section \<open>Properties of the dataset compiler\<close>

lemma unpack_saved_metadata:
  "saved_metadata (unpack extract_to entries w) = saved_metadata w"
proof (induction entries arbitrary: w)
  case Nil
  show ?case by simp
next
  case (Cons entry entries)
  obtain rel isdir where e: "entry = (rel, isdir)" by (cases entry)
  show ?case unfolding e unpack.simps Let_def by (simp add: Cons.IH)
qed

lemma mkdir_parents_saved_metadata:
  "saved_metadata (snd (mkdir_parents p w)) = saved_metadata w"
  by (simp add: mkdir_parents_def)

lemma unlink_saved_metadata:
  "saved_metadata (snd (unlink p w)) = saved_metadata w"
  by (simp add: unlink_def)

lemma download_file_saved_metadata:
  "saved_metadata (snd (download_file h sources_dir url w)) = saved_metadata w"
  by (simp add: download_file_def Let_def split: option.splits)

lemma open_and_extract_saved_metadata:
  "saved_metadata (snd (open_and_extract fmt archive_path extract_to w)) = saved_metadata w"
  by (simp add: open_and_extract_def unpack_saved_metadata
      split: option.splits file_content.splits)

lemma extract_archive_saved_metadata:
  "saved_metadata (snd (extract_archive archive_path extract_to w)) = saved_metadata w"
proof (cases "mkdir_parents extract_to w")
  case (Pair r w1)
  with mkdir_parents_saved_metadata [of extract_to w]
  have "saved_metadata w1 = saved_metadata w" by simp
  with Pair show ?thesis
    by (cases r) (simp_all add: extract_archive_def open_and_extract_saved_metadata)
qed

lemma get_library_saved_metadata:
  "saved_metadata (snd (get_library h sources_dir name version url w)) = saved_metadata w"
proof (cases "path_exists w (lib_dir_of sources_dir name version) \<or> \<not> truthy url")
  case True
  then show ?thesis by (auto simp: get_library_def Let_def)
next
  case False
  obtain r1 w1 where d: "download_file h sources_dir (the url) w = (r1, w1)"
    by (cases "download_file h sources_dir (the url) w")
  with download_file_saved_metadata [of h sources_dir "the url" w]
  have m1: "saved_metadata w1 = saved_metadata w" by simp
  show ?thesis
  proof (cases r1)
    case (Inl e)
    with False d m1 show ?thesis by (simp add: get_library_def Let_def)
  next
    case (Inr archive_path)
    obtain r2 w2 where
      x: "extract_archive archive_path (path_parent (lib_dir_of sources_dir name version)) w1
            = (r2, w2)"
      by (cases "extract_archive archive_path (path_parent (lib_dir_of sources_dir name version)) w1")
    with extract_archive_saved_metadata
      [of archive_path "path_parent (lib_dir_of sources_dir name version)" w1] m1
    have m2: "saved_metadata w2 = saved_metadata w" by simp
    show ?thesis
    proof (cases r2)
      case (Inl e)
      with False d Inr x m2 show ?thesis by (simp add: get_library_def Let_def)
    next
      case r2: (Inr u)
      obtain r3 w3 where l: "unlink archive_path w2 = (r3, w3)"
        by (cases "unlink archive_path w2")
      with unlink_saved_metadata [of archive_path w2] m2
      have "saved_metadata w3 = saved_metadata w" by simp
      with False d Inr x r2 l show ?thesis
        by (cases r3) (simp_all add: get_library_def Let_def)
    qed
  qed
qed


lemma compile_file_saved_metadata:
  "saved_metadata (snd (compile_file h av src out arch opt compiler extra w)) = saved_metadata w"
  by (simp add: compile_file_def Let_def split: option.splits run_outcome.splits)

lemma compile_cell_saved_metadata:
  "saved_metadata (snd (compile_cell h av lib src outp key results w)) = saved_metadata w"
proof -
  obtain arch opt func_name where k: "key = (arch, opt, func_name)" by (cases key)
  show ?thesis
  proof (cases "find_source_file h src func_name")
    case None
    then show ?thesis by (simp add: k compile_cell_def)
  next
    case (Some source_file)
    let ?out = "path_str (output_file_of outp lib func_name arch opt)"
    obtain r w1 where c: "compile_file h av source_file ?out arch opt ''gcc'' None w = (r, w1)"
      by (cases "compile_file h av source_file ?out arch opt ''gcc'' None w")
    with compile_file_saved_metadata [of h av source_file ?out arch opt "''gcc''" None w]
    have "saved_metadata w1 = saved_metadata w" by simp
    with Some c show ?thesis
      by (cases r) (simp_all add: k compile_cell_def Let_def)
  qed
qed

lemma compile_cells_saved_metadata:
  "saved_metadata (snd (compile_cells h av lib src outp keys results w)) = saved_metadata w"
proof (induction keys arbitrary: results w)
  case Nil
  show ?case by simp
next
  case (Cons key keys)
  obtain r w1 where c: "compile_cell h av lib src outp key results w = (r, w1)"
    by (cases "compile_cell h av lib src outp key results w")
  with compile_cell_saved_metadata [of h av lib src outp key results w]
  have "saved_metadata w1 = saved_metadata w" by simp
  with c Cons.IH show ?case
    by (cases r) simp_all
qed

lemma process_library_saved_metadata:
  "saved_metadata (snd (process_library h av out lib_config acc w)) = saved_metadata w"
proof (cases "dict_get lib_config ''name''")
  case None
  then show ?thesis by (simp add: process_library_def)
next
  case (Some lib_name)
  let ?src = "path_join out (parse_path ''sources'')"
  obtain r1 w1 where g: "get_library h ?src lib_name (dict_get lib_config ''version'')
                           (dict_get lib_config ''url'') w = (r1, w1)"
    by (cases "get_library h ?src lib_name (dict_get lib_config ''version'')
                 (dict_get lib_config ''url'') w")
  with get_library_saved_metadata [of h ?src lib_name "dict_get lib_config ''version''"
         "dict_get lib_config ''url''" w]
  have m1: "saved_metadata w1 = saved_metadata w" by simp
  show ?thesis
  proof (cases r1)
    case (Inl e)
    with Some g m1 show ?thesis by (simp add: process_library_def)
  next
    case (Inr source_dir)
    let ?bin = "path_str (path_join (path_join out (parse_path ''binaries''))
                            (parse_path lib_name))"
    obtain r2 w2 where c: "compile_library h av lib_name source_dir
                             (get_crypto_functions lib_name) ?bin w1 = (r2, w2)"
      by (cases "compile_library h av lib_name source_dir
                   (get_crypto_functions lib_name) ?bin w1")
    have "saved_metadata (snd (compile_library h av lib_name source_dir
                                 (get_crypto_functions lib_name) ?bin w1)) = saved_metadata w1"
      unfolding compile_library_def by (rule compile_cells_saved_metadata)
    with c m1 have m2: "saved_metadata w2 = saved_metadata w" by simp
    with Some g Inr c show ?thesis
      by (cases r2) (simp_all add: process_library_def)
  qed
qed

lemma compile_libraries_saved_metadata:
  "saved_metadata (snd (compile_libraries h av out libraries acc w)) = saved_metadata w"
proof (induction libraries arbitrary: acc w)
  case Nil
  show ?case by simp
next
  case (Cons lib_config libraries)
  obtain r w1 where p: "process_library h av out lib_config acc w = (r, w1)"
    by (cases "process_library h av out lib_config acc w")
  with process_library_saved_metadata [of h av out lib_config acc w]
  have "saved_metadata w1 = saved_metadata w" by simp
  with p Cons.IH show ?case
    by (cases r) simp_all
qed

lemma compile_libraries_append:
  "compile_libraries h av out (pre @ rest) acc w =
     (case compile_libraries h av out pre acc w of
        (Inl e, w1) \<Rightarrow> (Inl e, w1)
      | (Inr acc1, w1) \<Rightarrow> compile_libraries h av out rest acc1 w1)"
proof (induction pre arbitrary: acc w)
  case Nil
  show ?case by simp
next
  case (Cons lib_config pre)
  obtain r w1 where p: "process_library h av out lib_config acc w = (r, w1)"
    by (cases "process_library h av out lib_config acc w")
  with Cons.IH show ?case
    by (cases r) simp_all
qed

lemma compile_file_returns:
  assumes "set av \<subseteq> fst ` set ARCHITECTURES"
  shows "\<exists>b. fst (compile_file h av src out arch opt compiler extra w) = Inr b"
proof (cases "arch \<in> set av")
  case False
  then show ?thesis by (auto simp: compile_file_def)
next
  case True
  with assms have "arch \<in> fst ` set ARCHITECTURES" by blast
  then obtain cfg where "map_of ARCHITECTURES arch = Some cfg"
    by (metis map_of_eq_None_iff not_Some_eq)
  with True show ?thesis
    by (auto simp: compile_file_def Let_def split: run_outcome.splits)
qed

lemma compile_cell_returns:
  assumes "set av \<subseteq> fst ` set ARCHITECTURES"
  shows "\<exists>r. fst (compile_cell h av lib src outp key results w) = Inr r"
proof -
  obtain arch opt func_name where k: "key = (arch, opt, func_name)" by (cases key)
  show ?thesis
  proof (cases "find_source_file h src func_name")
    case None
    then show ?thesis by (simp add: k compile_cell_def)
  next
    case (Some source_file)
    let ?out = "path_str (output_file_of outp lib func_name arch opt)"
    obtain r w1 where c: "compile_file h av source_file ?out arch opt ''gcc'' None w = (r, w1)"
      by (cases "compile_file h av source_file ?out arch opt ''gcc'' None w")
    with compile_file_returns [OF assms, of h source_file ?out arch opt "''gcc''" None w]
    obtain b where "r = Inr b" by auto
    with Some c show ?thesis
      by (simp add: k compile_cell_def Let_def)
  qed
qed

lemma compile_cells_returns:
  assumes "set av \<subseteq> fst ` set ARCHITECTURES"
  shows "\<exists>r. fst (compile_cells h av lib src outp keys results w) = Inr r"
proof (induction keys arbitrary: results w)
  case Nil
  show ?case by simp
next
  case (Cons key keys)
  obtain r w1 where c: "compile_cell h av lib src outp key results w = (r, w1)"
    by (cases "compile_cell h av lib src outp key results w")
  with compile_cell_returns [OF assms, of h lib src outp key results w]
  obtain results1 where "r = Inr results1" by auto
  with c Cons.IH [of results1 w1] show ?case by simp
qed

lemma process_library_returns:
  assumes "set av \<subseteq> fst ` set ARCHITECTURES"
    and "dict_get lib_config ''name'' = Some lib_name"
    and "fst (get_library h (path_join out (parse_path ''sources'')) lib_name
               (dict_get lib_config ''version'') (dict_get lib_config ''url'') w) = Inr source_dir"
  shows "\<exists>r. fst (process_library h av out lib_config acc w) = Inr r"
proof -
  let ?bin = "path_str (path_join (path_join out (parse_path ''binaries'')) (parse_path lib_name))"
  from assms(3) obtain w1 where
    g: "get_library h (path_join out (parse_path ''sources'')) lib_name
          (dict_get lib_config ''version'') (dict_get lib_config ''url'') w = (Inr source_dir, w1)"
    by (cases "get_library h (path_join out (parse_path ''sources'')) lib_name
                 (dict_get lib_config ''version'') (dict_get lib_config ''url'') w") auto
  obtain r2 w2 where c: "compile_library h av lib_name source_dir
                           (get_crypto_functions lib_name) ?bin w1 = (r2, w2)"
    by (cases "compile_library h av lib_name source_dir
                 (get_crypto_functions lib_name) ?bin w1")
  have "\<exists>r. fst (compile_library h av lib_name source_dir
                    (get_crypto_functions lib_name) ?bin w1) = Inr r"
    unfolding compile_library_def by (rule compile_cells_returns [OF assms(1)])
  with c obtain results where "r2 = Inr results" by auto
  with assms(2) g c show ?thesis
    by (simp add: process_library_def)
qed

lemma wolfssl_fails:
  "get_library gcc_host (path_join (parse_path ''dataset'') (parse_path ''sources'')) ''wolfssl''
     (dict_get wolfssl_config ''version'') (dict_get wolfssl_config ''url'') ready_world
   = (Inl (ValueError ''Library wolfssl not found and no URL provided''), ready_world)"
  by (simp add: ready_world_eq wolfssl_config_def dict_get_def library_manager_defs)

lemma mbedtls_acquired:
  "fst (get_library gcc_host (path_join (parse_path ''dataset'') (parse_path ''sources''))
          ''mbedtls'' (dict_get mbedtls_config ''version'') (dict_get mbedtls_config ''url'')
          ready_world) = Inr ''dataset/sources/mbedtls-3.5.0''"
  by (simp add: ready_world_eq mbedtls_config_def dict_get_def good_url_def gcc_host_def
      library_manager_defs)

lemma mbedtls_builds:
  "fst (compile_all gcc_host [''x86-64''] (parse_path ''dataset'') [mbedtls_config] ready_world)
     = Inr ()"
proof -
  have av: "set [''x86-64''] \<subseteq> fst ` set ARCHITECTURES"
    by (simp add: ARCHITECTURES_def)
  have name: "dict_get mbedtls_config ''name'' = Some ''mbedtls''"
    by (simp add: mbedtls_config_def dict_get_def)
  from process_library_returns [OF av name mbedtls_acquired, of "[]"]
  obtain r where "fst (process_library gcc_host [''x86-64''] (parse_path ''dataset'')
                         mbedtls_config [] ready_world) = Inr r"
    by blast
  then show ?thesis
    by (cases "process_library gcc_host [''x86-64''] (parse_path ''dataset'')
                 mbedtls_config [] ready_world")
      (simp add: compile_all_def)
qed


lemma wolfssl_name: "dict_get wolfssl_config ''name'' = Some ''wolfssl''"
  by (simp add: wolfssl_config_def dict_get_def)

lemma wolfssl_first:
  "compile_all gcc_host [''x86-64''] (parse_path ''dataset'') (wolfssl_config # rest) ready_world
     = (Inl (ValueError ''Library wolfssl not found and no URL provided''), ready_world)"
  by (simp add: compile_all_def process_library_def wolfssl_name wolfssl_fails)

text \<open>
  C2 (as the code has it).  \<open>compile_all\<close> works through the libraries in order.  When
  the source of a library cannot be acquired, the error of \<open>get_library\<close> leaves
  \<open>compile_all\<close> at once, whatever libraries follow: they are not processed, and the
  metadata document is not written.
\<close>

theorem compile_all_stops_at_first_failure:
  assumes pre: "compile_libraries h av out pre [] w = (Inr acc, w1)"
    and name: "dict_get lib_config ''name'' = Some lib_name"
    and fail: "get_library h (path_join out (parse_path ''sources'')) lib_name
                 (dict_get lib_config ''version'') (dict_get lib_config ''url'') w1 = (Inl e, w2)"
  shows "compile_all h av out (pre @ lib_config # rest) w = (Inl e, w2)
         \<and> saved_metadata w2 = saved_metadata w"
proof
  have "process_library h av out lib_config acc w1 = (Inl e, w2)"
    using name fail by (simp add: process_library_def)
  then have "compile_libraries h av out (lib_config # rest) acc w1 = (Inl e, w2)"
    by simp
  with pre have "compile_libraries h av out (pre @ lib_config # rest) [] w = (Inl e, w2)"
    by (simp add: compile_libraries_append)
  then show "compile_all h av out (pre @ lib_config # rest) w = (Inl e, w2)"
    by (simp add: compile_all_def)
  from pre compile_libraries_saved_metadata [of h av out pre "[]" w]
  have "saved_metadata w1 = saved_metadata w" by simp
  moreover from fail get_library_saved_metadata
    [of h "path_join out (parse_path ''sources'')" lib_name "dict_get lib_config ''version''"
        "dict_get lib_config ''url''" w1]
  have "saved_metadata w2 = saved_metadata w1" by simp
  ultimately show "saved_metadata w2 = saved_metadata w" by simp
qed

theorem compile_all_stops_at_first_failure_witness:
  "compile_libraries gcc_host [''x86-64''] (parse_path ''dataset'') [] [] ready_world
     = (Inr [], ready_world)
   \<and> dict_get wolfssl_config ''name'' = Some ''wolfssl''
   \<and> get_library gcc_host (path_join (parse_path ''dataset'') (parse_path ''sources''))
         ''wolfssl'' (dict_get wolfssl_config ''version'') (dict_get wolfssl_config ''url'')
         ready_world
       = (Inl (ValueError ''Library wolfssl not found and no URL provided''), ready_world)
   \<and> compile_all gcc_host [''x86-64''] (parse_path ''dataset'')
         ([] @ wolfssl_config # [mbedtls_config]) ready_world
       = (Inl (ValueError ''Library wolfssl not found and no URL provided''), ready_world)"
proof -
  have pre: "compile_libraries gcc_host [''x86-64''] (parse_path ''dataset'') [] [] ready_world
               = (Inr [], ready_world)"
    by simp
  from compile_all_stops_at_first_failure [OF pre wolfssl_name wolfssl_fails, of "[mbedtls_config]"]
    pre wolfssl_name wolfssl_fails
  show ?thesis by blast
qed

theorem compile_all_aborts_counterexample:
  "fst (compile_all gcc_host [''x86-64''] (parse_path ''dataset'')
          [wolfssl_config, mbedtls_config] ready_world)
     = Inl (ValueError ''Library wolfssl not found and no URL provided'')
   \<and> saved_metadata (snd (compile_all gcc_host [''x86-64''] (parse_path ''dataset'')
                             [wolfssl_config, mbedtls_config] ready_world)) = None
   \<and> spawned (snd (compile_all gcc_host [''x86-64''] (parse_path ''dataset'')
                      [wolfssl_config, mbedtls_config] ready_world)) = []
   \<and> fst (compile_all gcc_host [''x86-64''] (parse_path ''dataset'') [mbedtls_config] ready_world)
     = Inr ()"
  by (simp add: wolfssl_first mbedtls_builds) (simp add: ready_world_eq)

section \<open>Labels of compiled binaries\<close>

lemma split_acc_no_sep: "c \<notin> set xs \<Longrightarrow> split_acc c cur xs = [cur @ xs]"
  by (induction xs arbitrary: cur) auto

lemma split_acc_sep:
  "c \<notin> set xs \<Longrightarrow> split_acc c cur (xs @ c # rest) = (cur @ xs) # split_acc c [] rest"
  by (induction xs arbitrary: cur) auto

lemma split_acc_nonempty: "split_acc c cur xs \<noteq> []"
  by (induction xs arbitrary: cur) auto

lemma split_acc_last_after_sep:
  "c \<notin> set ys \<Longrightarrow> last (split_acc c cur (xs @ c # ys)) = ys"
  by (induction xs arbitrary: cur) (auto simp: split_acc_no_sep split_acc_nonempty)

lemma join_with_snoc:
  "join_with sep (cs @ [f]) = (if cs = [] then f else join_with sep cs @ sep @ f)"
  by (induction sep cs rule: join_with.induct) auto

lemma rfind_absent: "c \<notin> set ys \<Longrightarrow> rfind c ys = - 1"
  by (induction ys) auto

lemma rfind_last_occurrence:
  "c \<notin> set ys \<Longrightarrow> rfind c (xs @ c # ys) = int (length xs)"
  by (induction xs) (auto simp: rfind_absent Let_def)

lemma last_filter_keeps:
  assumes "xs \<noteq> []" and "P (last xs)"
  shows "last (filter P xs) = last xs \<and> filter P xs \<noteq> []"
proof -
  from assms(1) obtain ys x where xs: "xs = ys @ [x]"
    by (cases xs rule: rev_cases) auto
  with assms(2) show ?thesis by simp
qed

text \<open>The name of a path string that ends in a component without slash.\<close>

lemma path_name_of_string:
  assumes f: "CHR ''/'' \<notin> set f" "f \<noteq> []" "f \<noteq> ''.''"
    and s: "s = f \<or> (\<exists>p. s = p @ ''/'' @ f)"
  shows "path_name (parse_path s) = f"
proof -
  have l: "last (split_on (CHR ''/'') s) = f"
    using s f(1) by (auto simp: split_on_def split_acc_no_sep split_acc_last_after_sep)
  have ne: "split_on (CHR ''/'') s \<noteq> []"
    by (simp add: split_on_def split_acc_nonempty)
  let ?ok = "\<lambda>c. c \<noteq> [] \<and> c \<noteq> ''.''"
  have "?ok (last (split_on (CHR ''/'') s))"
    using l f by simp
  from last_filter_keeps [OF ne, of ?ok, OF this] l show ?thesis
    by (simp add: path_name_def parse_path_def)
qed

lemma path_str_snoc:
  assumes "f \<noteq> []"
  shows "path_str (a, cs @ [f]) = f \<or> (\<exists>p. path_str (a, cs @ [f]) = p @ ''/'' @ f)"
proof (cases a)
  case True
  show ?thesis
  proof (cases "cs = []")
    case True
    with \<open>a\<close> have "path_str (a, cs @ [f]) = [] @ ''/'' @ f" by (simp add: path_str_def)
    then show ?thesis by blast
  next
    case False
    with \<open>a\<close> have "path_str (a, cs @ [f]) = (''/'' @ join_with ''/'' cs) @ ''/'' @ f"
      by (simp add: path_str_def join_with_snoc)
    then show ?thesis by blast
  qed
next
  case False
  show ?thesis
  proof (cases "cs = []")
    case True
    with \<open>\<not> a\<close> show ?thesis by (simp add: path_str_def)
  next
    case cs: False
    with \<open>\<not> a\<close> have "path_str (a, cs @ [f]) = join_with ''/'' cs @ ''/'' @ f"
      by (simp add: path_str_def join_with_snoc)
    then show ?thesis by blast
  qed
qed


lemma opt_clean_levels:
  "opt \<in> set OPTIMIZATION_LEVELS \<Longrightarrow>
   opt_clean opt \<in> {''o0'', ''o1'', ''o2'', ''o3'', ''os''}"
  by (auto simp: OPTIMIZATION_LEVELS_def opt_clean_def lower_def)

lemma not_starts_with_absent: "c \<notin> set s \<Longrightarrow> \<not> starts_with [c] s"
  by (cases s) auto

lemma parse_path_single:
  assumes "CHR ''/'' \<notin> set f" "f \<noteq> []" "f \<noteq> ''.''"
  shows "parse_path f = (False, [f])"
  using assms by (simp add: parse_path_def split_on_def split_acc_no_sep not_starts_with_absent)

text \<open>The stem of a file name \<open>x.bin\<close>.\<close>

lemma path_stem_bin:
  assumes "path_name p = x @ ''.bin''" and "x \<noteq> []"
  shows "path_stem p = x"
proof -
  have "rfind (CHR ''.'') (x @ CHR ''.'' # ''bin'') = int (length x)"
    by (rule rfind_last_occurrence) simp
  then have "rfind (CHR ''.'') (x @ ''.bin'') = int (length x)" by simp
  with assms show ?thesis by (simp add: path_stem_def Let_def)
qed

lemma split_four_fields:
  assumes "CHR ''_'' \<notin> set a" "CHR ''_'' \<notin> set b" "CHR ''_'' \<notin> set c" "CHR ''_'' \<notin> set d"
  shows "split_on (CHR ''_'') (a @ ''_'' @ b @ ''_'' @ c @ ''_'' @ d) = [a, b, c, d]"
  using assms by (simp add: split_on_def split_acc_sep split_acc_no_sep)

lemma stem_of_output_file:
  assumes "CHR ''/'' \<notin> set library_name" "CHR ''/'' \<notin> set func_name" "CHR ''/'' \<notin> set arch"
    and "opt \<in> set OPTIMIZATION_LEVELS"
  shows "path_stem (parse_path (path_str
           (output_file_of output_path library_name func_name arch opt)))
         = library_name @ ''_'' @ func_name @ ''_'' @ arch @ ''_'' @ opt_clean opt"
proof -
  let ?x = "library_name @ ''_'' @ func_name @ ''_'' @ arch @ ''_'' @ opt_clean opt"
  let ?f = "output_filename library_name func_name arch opt"
  have f: "?f = ?x @ ''.bin''" by (simp add: output_filename_def)
  from opt_clean_levels [OF assms(4)] have "CHR ''/'' \<notin> set (opt_clean opt)" by auto
  with assms have slash: "CHR ''/'' \<notin> set ?f" by (simp add: output_filename_def)
  have ne: "?f \<noteq> []" "?f \<noteq> ''.''" by (simp_all add: output_filename_def)
  have "output_file_of output_path library_name func_name arch opt
          = (fst output_path, snd output_path @ [?f])"
    by (simp add: output_file_of_def parse_path_single [OF slash ne] path_join_def)
  with path_str_snoc [OF ne(1), of "fst output_path" "snd output_path"]
  have "path_str (output_file_of output_path library_name func_name arch opt) = ?f
        \<or> (\<exists>p. path_str (output_file_of output_path library_name func_name arch opt)
                   = p @ ''/'' @ ?f)"
    by simp
  from path_name_of_string [OF slash ne this]
  have "path_name (parse_path (path_str
          (output_file_of output_path library_name func_name arch opt))) = ?x @ ''.bin''"
    by (simp only: f)
  then show ?thesis by (rule path_stem_bin) simp
qed

lemma label_of_output_file:
  assumes "CHR ''/'' \<notin> set library_name" "CHR ''/'' \<notin> set func_name" "CHR ''/'' \<notin> set arch"
    and "CHR ''_'' \<notin> set library_name" "CHR ''_'' \<notin> set func_name" "CHR ''_'' \<notin> set arch"
    and "opt \<in> set OPTIMIZATION_LEVELS"
  shows "label_of (label_function
           (path_str (output_file_of output_path library_name func_name arch opt)) info)
         = Some [(''algorithm'', PStr (detect_algorithm func_name)),
                 (''library'', PStr library_name),
                 (''architecture'', PStr arch),
                 (''optimization'', PStr (opt_clean opt)),
                 (''function_name'', PStr func_name),
                 (''is_crypto'', PBool True)]"
proof -
  from opt_clean_levels [OF assms(7)] have "CHR ''_'' \<notin> set (opt_clean opt)" by auto
  with assms(4-6)
  have "split_on (CHR ''_'')
          (library_name @ ''_'' @ func_name @ ''_'' @ arch @ ''_'' @ opt_clean opt)
        = [library_name, func_name, arch, opt_clean opt]"
    by (rule split_four_fields)
  with stem_of_output_file [OF assms(1-3) assms(7), of output_path]
  show ?thesis
    by (simp add: label_function_def label_of_def dict_get_def map_of_dict_set)
qed

lemmas cross_compiler_defs =
  compile_library_def matrix_cells_def OPTIMIZATION_LEVELS_def compile_cell_def
  find_source_file_def compile_file_def compiler_command_def ARCHITECTURES_def
  output_file_of_def output_filename_def opt_clean_def lower_def unit_metadata_def
  parse_path_def split_on_def path_join_def path_str_def Let_def

lemma hmac_build_units:
  "fst hmac_build = Inr (projr (fst hmac_build))
   \<and> ((''x86-64'', ''-O2'', ''HMAC''), hmac_unit) \<in> set (projr (fst hmac_build))"
  by (simp add: hmac_build_def hmac_unit_def gcc_host_def cross_compiler_defs)

lemma aes_build_units:
  "dict_get (projr (fst aes_build)) (''x86-64'', ''-O0'', ''AES_encrypt'') = Some aes_unit"
  by (simp add: aes_build_def aes_unit_def gcc_host_def cross_compiler_defs dict_get_def)

lemma aes_unit_fields:
  "dict_get aes_unit ''binary_path''
     = Some (PStr ''dataset/binaries/openssl/openssl_AES_encrypt_x86-64_o0.bin'')
   \<and> dict_get aes_unit ''architecture'' = Some (PStr ''x86-64'')
   \<and> dict_get aes_unit ''optimization'' = Some (PStr ''-O0'')
   \<and> dict_get aes_unit ''library'' = Some (PStr ''openssl'')"
  by (simp add: aes_unit_def unit_metadata_def dict_get_def path_str_def)

lemma aes_label:
  "label_of (label_function ''dataset/binaries/openssl/openssl_AES_encrypt_x86-64_o0.bin'' [])
     = Some [(''algorithm'', PStr ''AES''), (''library'', PStr ''openssl''),
             (''architecture'', PStr ''encrypt''), (''optimization'', PStr ''x86-64''),
             (''function_name'', PStr ''AES''), (''is_crypto'', PBool True)]"
  by (simp add: label_function_def label_of_def dict_get_def parse_path_def split_on_def
      path_stem_def path_name_def detect_algorithm_def ALGORITHM_MAP_def lower_def Let_def)


lemma set_dict_set: "set (dict_set k v d) \<subseteq> insert (k, v) (set d)"
  by (induction d) (auto split: if_splits)

lemma compile_cell_units:
  assumes inv: "units_well_formed h lib outp cells results"
    and key: "key \<in> cells"
    and run: "compile_cell h av lib src outp key results w = (Inr results1, w1)"
  shows "units_well_formed h lib outp cells results1"
proof -
  obtain arch opt func_name where k: "key = (arch, opt, func_name)" by (cases key)
  show ?thesis
  proof (cases "find_source_file h src func_name")
    case None
    with run inv show ?thesis by (simp add: k compile_cell_def)
  next
    case (Some source_file)
    let ?file = "output_file_of outp lib func_name arch opt"
    obtain r w' where c: "compile_file h av source_file (path_str ?file) arch opt ''gcc'' None w
                            = (r, w')"
      by (cases "compile_file h av source_file (path_str ?file) arch opt ''gcc'' None w")
    show ?thesis
    proof (cases r)
      case (Inl e)
      with run Some c show ?thesis by (simp add: k compile_cell_def Let_def)
    next
      case (Inr success)
      show ?thesis
      proof (cases success)
        case False
        with run Some c Inr inv show ?thesis by (simp add: k compile_cell_def Let_def)
      next
        case True
        with run Some c Inr
        have r1: "results1 = dict_set key
                    (unit_metadata h lib ?file source_file arch opt func_name) results"
          by (simp add: k compile_cell_def Let_def)
        show ?thesis
          unfolding units_well_formed_def
        proof (intro ballI)
          fix entry assume "entry \<in> set results1"
          with r1 set_dict_set
          have "entry = (key, unit_metadata h lib ?file source_file arch opt func_name)
                \<or> entry \<in> set results"
            by fastforce
          then show "case entry of (key, unit) \<Rightarrow>
                   key \<in> cells \<and>
                   (case key of (arch, opt, func_name) \<Rightarrow>
                      \<exists>source_file.
                        unit = unit_metadata h lib (output_file_of outp lib func_name arch opt)
                                 source_file arch opt func_name)"
          proof
            assume "entry = (key, unit_metadata h lib ?file source_file arch opt func_name)"
            with key show ?thesis by (auto simp: k)
          next
            assume "entry \<in> set results"
            with inv show ?thesis unfolding units_well_formed_def by blast
          qed
        qed
      qed
    qed
  qed
qed

lemma compile_cells_units:
  assumes "units_well_formed h lib outp cells results"
    and "set keys \<subseteq> cells"
    and "compile_cells h av lib src outp keys results w = (Inr results1, w1)"
  shows "units_well_formed h lib outp cells results1"
  using assms
proof (induction keys arbitrary: results w)
  case Nil
  then show ?case by simp
next
  case (Cons key keys)
  obtain r w' where c: "compile_cell h av lib src outp key results w = (r, w')"
    by (cases "compile_cell h av lib src outp key results w")
  show ?case
  proof (cases r)
    case (Inl e)
    with Cons.prems(3) c show ?thesis by simp
  next
    case (Inr results')
    with c Cons.prems(1,2) have "units_well_formed h lib outp cells results'"
      using compile_cell_units [of h lib outp cells results key av src w results' w'] by simp
    moreover from Cons.prems(2) have "set keys \<subseteq> cells" by simp
    moreover from Cons.prems(3) c Inr
    have "compile_cells h av lib src outp keys results' w' = (Inr results1, w1)" by simp
    ultimately show ?thesis by (rule Cons.IH)
  qed
qed

lemma matrix_cells_levels:
  "(arch, opt, func_name) \<in> set (matrix_cells av functions) \<Longrightarrow>
   arch \<in> set av \<and> opt \<in> set OPTIMIZATION_LEVELS \<and> func_name \<in> set functions"
  by (auto simp: matrix_cells_def)

lemma compile_library_units:
  assumes "fst (compile_library h av lib src functions output_dir w) = Inr results"
  shows "units_well_formed h lib (parse_path output_dir) (set (matrix_cells av functions)) results"
proof -
  from assms obtain w1 where
    "compile_cells h av lib src (parse_path output_dir) (matrix_cells av functions) [] w
       = (Inr results, w1)"
    unfolding compile_library_def
    by (cases "compile_cells h av lib src (parse_path output_dir) (matrix_cells av functions) [] w")
      auto
  moreover have "units_well_formed h lib (parse_path output_dir)
                   (set (matrix_cells av functions)) []"
    by (simp add: units_well_formed_def)
  ultimately show ?thesis
    using compile_cells_units [of h lib "parse_path output_dir" "set (matrix_cells av functions)"
        "[]" "matrix_cells av functions" av src w results w1]
    by simp
qed

lemma split_acc_length:
  "length (split_acc c cur xs) = Suc (length (filter (\<lambda>x. x = c) xs))"
  by (induction xs arbitrary: cur) auto

lemma library_of_output_file:
  assumes "CHR ''/'' \<notin> set library_name" "CHR ''/'' \<notin> set func_name" "CHR ''/'' \<notin> set arch"
    and "CHR ''_'' \<notin> set library_name"
    and "opt \<in> set OPTIMIZATION_LEVELS"
  shows "label_field (label_function
           (path_str (output_file_of output_path library_name func_name arch opt)) info)
           ''library'' = Some (PStr library_name)"
proof -
  let ?rest = "func_name @ ''_'' @ arch @ ''_'' @ opt_clean opt"
  let ?parts = "split_on (CHR ''_'') (library_name @ ''_'' @ ?rest)"
  have stem: "path_stem (parse_path (path_str
                (output_file_of output_path library_name func_name arch opt)))
              = library_name @ ''_'' @ ?rest"
    using stem_of_output_file [OF assms(1-3) assms(5), of output_path] by simp
  have parts: "?parts = library_name # split_acc (CHR ''_'') [] ?rest"
    using split_acc_sep [OF assms(4), of "[]" ?rest] by (simp add: split_on_def)
  have "3 \<le> length (split_acc (CHR ''_'') [] ?rest)"
    by (simp add: split_acc_length)
  with parts have len: "4 \<le> length ?parts" and first: "?parts ! 0 = library_name"
    by simp_all
  show ?thesis
    unfolding label_function_def stem Let_def
    using len first
    by (simp add: label_field_def label_of_def dict_get_def map_of_dict_set)
qed

lemma check_toolchains_catalog:
  "check_toolchains h = Inr av \<Longrightarrow> set av \<subseteq> fst ` set ARCHITECTURES"
  by (auto simp: check_toolchains_def Let_def split: if_splits)

lemma catalog_architecture_names:
  "arch \<in> fst ` set ARCHITECTURES \<Longrightarrow> CHR ''_'' \<notin> set arch \<and> CHR ''/'' \<notin> set arch"
  by (auto simp: ARCHITECTURES_def)

lemma opt_clean_differs: "opt \<in> set OPTIMIZATION_LEVELS \<Longrightarrow> opt_clean opt \<noteq> opt"
  by (auto simp: OPTIMIZATION_LEVELS_def opt_clean_def lower_def)

text \<open>
  C1 (as the code has it).  For a unit that \<open>compile_library\<close> stored for one of the
  probed architectures, with a library name free of underscores: the label read from
  the unit's binary path carries the unit's library, whatever the function name; the
  unit's optimization level is never its own cleaned form; and when the function name
  has no underscore, the label carries the unit's architecture and, as its
  optimization, the unit's level without the dash and in lower case (\<open>o2\<close> for
  \<open>-O2\<close>).
\<close>

theorem label_matches_compilation_unit:
  assumes toolchains: "check_toolchains h = Inr av"
    and run: "fst (compile_library h av library_name source_dir functions output_dir w)
                = Inr results"
    and unit: "((arch, opt, func_name), unit) \<in> set results"
    and lib: "CHR ''_'' \<notin> set library_name" "CHR ''/'' \<notin> set library_name"
    and func: "CHR ''/'' \<notin> set func_name"
  shows "\<exists>binary_path.
           dict_get unit ''binary_path'' = Some (PStr binary_path)
           \<and> dict_get unit ''library'' = Some (PStr library_name)
           \<and> dict_get unit ''architecture'' = Some (PStr arch)
           \<and> dict_get unit ''optimization'' = Some (PStr opt)
           \<and> opt_clean opt \<noteq> opt
           \<and> label_field (label_function binary_path info) ''library''
                 = Some (PStr library_name)
           \<and> (CHR ''_'' \<notin> set func_name \<longrightarrow>
                 label_field (label_function binary_path info) ''architecture''
                   = Some (PStr arch)
                 \<and> label_field (label_function binary_path info) ''optimization''
                   = Some (PStr (opt_clean opt)))"
proof -
  let ?file = "output_file_of (parse_path output_dir) library_name func_name arch opt"
  from compile_library_units [OF run] unit
  have cell: "(arch, opt, func_name) \<in> set (matrix_cells av functions)"
    and "\<exists>source_file. unit = unit_metadata h library_name ?file source_file arch opt func_name"
    unfolding units_well_formed_def by auto
  then obtain source_file where
    u: "unit = unit_metadata h library_name ?file source_file arch opt func_name"
    by blast
  from matrix_cells_levels [OF cell]
  have opt: "opt \<in> set OPTIMIZATION_LEVELS" and "arch \<in> set av" by simp_all
  with check_toolchains_catalog [OF toolchains] have "arch \<in> fst ` set ARCHITECTURES" by blast
  from catalog_architecture_names [OF this]
  have arch: "CHR ''_'' \<notin> set arch" "CHR ''/'' \<notin> set arch" by simp_all
  have fields: "dict_get unit ''binary_path'' = Some (PStr (path_str ?file))"
    "dict_get unit ''library'' = Some (PStr library_name)"
    "dict_get unit ''architecture'' = Some (PStr arch)"
    "dict_get unit ''optimization'' = Some (PStr opt)"
    by (simp_all add: u unit_metadata_def dict_get_def)
  have library: "label_field (label_function (path_str ?file) info) ''library''
                   = Some (PStr library_name)"
    by (rule library_of_output_file [OF lib(2) func arch(2) lib(1) opt])
  have rest: "CHR ''_'' \<notin> set func_name \<longrightarrow>
                label_field (label_function (path_str ?file) info) ''architecture''
                  = Some (PStr arch)
                \<and> label_field (label_function (path_str ?file) info) ''optimization''
                  = Some (PStr (opt_clean opt))"
  proof
    assume f: "CHR ''_'' \<notin> set func_name"
    have "label_of (label_function (path_str ?file) info)
            = Some [(''algorithm'', PStr (detect_algorithm func_name)),
                    (''library'', PStr library_name),
                    (''architecture'', PStr arch),
                    (''optimization'', PStr (opt_clean opt)),
                    (''function_name'', PStr func_name),
                    (''is_crypto'', PBool True)]"
      by (rule label_of_output_file [OF lib(2) func arch(2) lib(1) f arch(1) opt])
    then show "label_field (label_function (path_str ?file) info) ''architecture''
                 = Some (PStr arch)
               \<and> label_field (label_function (path_str ?file) info) ''optimization''
                 = Some (PStr (opt_clean opt))"
      by (simp add: label_field_def dict_get_def)
  qed
  from fields opt_clean_differs [OF opt] library rest show ?thesis by blast
qed


lemma hmac_unit_fields:
  "dict_get hmac_unit ''binary_path''
     = Some (PStr ''dataset/binaries/openssl/openssl_HMAC_x86-64_o2.bin'')
   \<and> dict_get hmac_unit ''optimization'' = Some (PStr ''-O2'')"
  by (simp add: hmac_unit_def unit_metadata_def dict_get_def path_str_def)

lemma hmac_build_lookup:
  "dict_get (projr (fst hmac_build)) (''x86-64'', ''-O2'', ''HMAC'') = Some hmac_unit"
  by (simp add: hmac_build_def hmac_unit_def gcc_host_def cross_compiler_defs dict_get_def)

lemma hmac_label:
  "label_of (label_function ''dataset/binaries/openssl/openssl_HMAC_x86-64_o2.bin'' [])
     = Some [(''algorithm'', PStr ''HMAC''), (''library'', PStr ''openssl''),
             (''architecture'', PStr ''x86-64''), (''optimization'', PStr ''o2''),
             (''function_name'', PStr ''HMAC''), (''is_crypto'', PBool True)]"
  by (simp add: label_function_def label_of_def dict_get_def parse_path_def split_on_def
      path_stem_def path_name_def detect_algorithm_def ALGORITHM_MAP_def lower_def Let_def)

lemma aes_build_member:
  "fst aes_build = Inr (projr (fst aes_build))
   \<and> ((''x86-64'', ''-O0'', ''AES_encrypt''), aes_unit) \<in> set (projr (fst aes_build))"
  by (simp add: aes_build_def aes_unit_def gcc_host_def cross_compiler_defs)

theorem label_matches_compilation_unit_witness:
  "check_toolchains gcc_host = Inr [''x86'', ''x86-64'']
   \<and> fst hmac_build = Inr (projr (fst hmac_build))
   \<and> ((''x86-64'', ''-O2'', ''HMAC''), hmac_unit) \<in> set (projr (fst hmac_build))
   \<and> CHR ''_'' \<notin> set ''openssl'' \<and> CHR ''/'' \<notin> set ''openssl''
   \<and> CHR ''/'' \<notin> set ''HMAC'' \<and> CHR ''_'' \<notin> set ''HMAC''
   \<and> label_field (label_function ''dataset/binaries/openssl/openssl_HMAC_x86-64_o2.bin'' [])
         ''library'' = Some (PStr ''openssl'')
   \<and> label_field (label_function ''dataset/binaries/openssl/openssl_HMAC_x86-64_o2.bin'' [])
         ''architecture'' = Some (PStr ''x86-64'')
   \<and> label_field (label_function ''dataset/binaries/openssl/openssl_HMAC_x86-64_o2.bin'' [])
         ''optimization'' = Some (PStr (opt_clean ''-O2''))
   \<and> fst aes_build = Inr (projr (fst aes_build))
   \<and> ((''x86-64'', ''-O0'', ''AES_encrypt''), aes_unit) \<in> set (projr (fst aes_build))
   \<and> CHR ''/'' \<notin> set ''AES_encrypt''
   \<and> label_field (label_function
           ''dataset/binaries/openssl/openssl_AES_encrypt_x86-64_o0.bin'' []) ''library''
         = Some (PStr ''openssl'')"
proof -
  have run: "fst (compile_library gcc_host [''x86'', ''x86-64''] ''openssl''
                    ''dataset/sources/openssl'' [''HMAC''] ''dataset/binaries/openssl''
                    ready_world)
               = Inr (projr (fst hmac_build))"
    using hmac_build_units by (simp add: hmac_build_def)
  have unit: "((''x86-64'', ''-O2'', ''HMAC''), hmac_unit) \<in> set (projr (fst hmac_build))"
    using hmac_build_units by simp
  have run': "fst (compile_library gcc_host [''x86'', ''x86-64''] ''openssl''
                     ''dataset/sources/openssl'' [''AES_encrypt''] ''dataset/binaries/openssl''
                     ready_world)
                = Inr (projr (fst aes_build))"
    using aes_build_member by (simp add: aes_build_def)
  have unit': "((''x86-64'', ''-O0'', ''AES_encrypt''), aes_unit) \<in> set (projr (fst aes_build))"
    using aes_build_member by simp
  have n: "CHR ''_'' \<notin> set ''openssl''" "CHR ''/'' \<notin> set ''openssl''" by simp_all
  have f: "CHR ''/'' \<notin> set ''HMAC''" and u: "CHR ''_'' \<notin> set ''HMAC''"
    and f': "CHR ''/'' \<notin> set ''AES_encrypt''"
    by simp_all
  from label_matches_compilation_unit [OF gcc_host_toolchains run unit n f, of "[]"] u
  obtain binary_path where
    p: "dict_get hmac_unit ''binary_path'' = Some (PStr binary_path)"
    and l: "label_field (label_function binary_path []) ''library'' = Some (PStr ''openssl'')"
      "label_field (label_function binary_path []) ''architecture'' = Some (PStr ''x86-64'')"
      "label_field (label_function binary_path []) ''optimization''
         = Some (PStr (opt_clean ''-O2''))"
    by blast
  from p hmac_unit_fields
  have b: "binary_path = ''dataset/binaries/openssl/openssl_HMAC_x86-64_o2.bin''" by simp
  from label_matches_compilation_unit [OF gcc_host_toolchains run' unit' n f', of "[]"]
  obtain binary_path' where
    p': "dict_get aes_unit ''binary_path'' = Some (PStr binary_path')"
    and l': "label_field (label_function binary_path' []) ''library'' = Some (PStr ''openssl'')"
    by blast
  from p' aes_unit_fields
  have b': "binary_path' = ''dataset/binaries/openssl/openssl_AES_encrypt_x86-64_o0.bin''"
    by simp
  from l l' b b' gcc_host_toolchains hmac_build_units aes_build_member n f u f'
  show ?thesis by blast
qed

theorem label_optimization_counterexample:
  "dict_get (projr (fst hmac_build)) (''x86-64'', ''-O2'', ''HMAC'') = Some hmac_unit
   \<and> dict_get hmac_unit ''binary_path''
         = Some (PStr ''dataset/binaries/openssl/openssl_HMAC_x86-64_o2.bin'')
   \<and> dict_get hmac_unit ''optimization'' = Some (PStr ''-O2'')
   \<and> label_field (label_function ''dataset/binaries/openssl/openssl_HMAC_x86-64_o2.bin'' [])
         ''optimization'' = Some (PStr ''o2'')
   \<and> ''o2'' \<noteq> ''-O2''"
proof -
  have "label_field (label_function ''dataset/binaries/openssl/openssl_HMAC_x86-64_o2.bin'' [])
          ''optimization'' = Some (PStr ''o2'')"
    by (simp add: label_field_def hmac_label dict_get_def)
  with hmac_build_lookup hmac_unit_fields show ?thesis by simp
qed

text \<open>
  For a function name with underscores the fields of the label shift: the build of
  \<open>AES_encrypt\<close> for \<open>x86-64\<close> at \<open>-O0\<close> is labelled with the architecture
  \<open>encrypt\<close> and the optimization \<open>x86-64\<close>.
\<close>

lemma underscore_name_shifts_fields:
  "dict_get (projr (fst aes_build)) (''x86-64'', ''-O0'', ''AES_encrypt'') = Some aes_unit
   \<and> dict_get aes_unit ''binary_path''
         = Some (PStr ''dataset/binaries/openssl/openssl_AES_encrypt_x86-64_o0.bin'')
   \<and> dict_get aes_unit ''architecture'' = Some (PStr ''x86-64'')
   \<and> label_field (label_function
           ''dataset/binaries/openssl/openssl_AES_encrypt_x86-64_o0.bin'' []) ''architecture''
         = Some (PStr ''encrypt'')
   \<and> dict_get aes_unit ''optimization'' = Some (PStr ''-O0'')
   \<and> label_field (label_function
           ''dataset/binaries/openssl/openssl_AES_encrypt_x86-64_o0.bin'' []) ''optimization''
         = Some (PStr ''x86-64'')"
proof -
  have "label_field (label_function
           ''dataset/binaries/openssl/openssl_AES_encrypt_x86-64_o0.bin'' []) ''architecture''
         = Some (PStr ''encrypt'')"
    and "label_field (label_function
           ''dataset/binaries/openssl/openssl_AES_encrypt_x86-64_o0.bin'' []) ''optimization''
         = Some (PStr ''x86-64'')"
    by (simp_all add: label_field_def aes_label dict_get_def)
  with aes_build_units aes_unit_fields show ?thesis by simp
qed

end
